theory Spec2Isabelle
  imports Complex_Main
begin

section \<open>Python values\<close>

text \<open>
  Python integers are unbounded and are modelled as \<open>int\<close> (\<open>nat\<close> for counts and row
  identifiers). A Python \<open>float\<close> is modelled by the rational number it denotes (a
  double; infinities and NaN are left out). Strings are character lists.
\<close>

type_synonym pyfloat = rat

text \<open>
  The float the literal \<open>0.7\<close> denotes: the double nearest to seven tenths,
  \<open>0x3FE6666666666666\<close>.
\<close>

definition float_0_7 :: pyfloat where
  "float_0_7 = 3152519739159347 / 4503599627370496"

datatype py_error = ZeroDivisionError

text \<open>The character of a decimal digit \<open>d < 10\<close>.\<close>

definition digit_char :: "nat \<Rightarrow> char" where
  "digit_char d = ''0123456789'' ! d"

text \<open>\<open>str(n)\<close> for a non-negative integer: its decimal digits.\<close>

fun str_nat :: "nat \<Rightarrow> string" where
  "str_nat n = (if n < 10 then [digit_char n] else str_nat (n div 10) @ [digit_char (n mod 10)])"

declare str_nat.simps [simp del]

text \<open>\<open>str(i)\<close> for any integer.\<close>

definition str_int :: "int \<Rightarrow> string" where
  "str_int i = (if i < 0 then CHR ''-'' # str_nat (nat (- i)) else str_nat (nat i))"

text \<open>Reading a digit string back; used only to show that \<open>str\<close> is injective.\<close>

definition digits_value :: "string \<Rightarrow> nat" where
  "digits_value s = foldl (\<lambda>a c. 10 * a + (of_char c - 48)) 0 s"

section \<open>The client data partitioning utility (create_client_data.py)\<close>

text \<open>
  A data frame is its column names and its rows; a row is the list of its cells.
  The file system maps a path to the data frame a CSV file holds.
\<close>

record dataframe =
  columns :: "string list"
  rows :: "string list list"

type_synonym filesystem = "string \<rightharpoonup> dataframe"

text \<open>
  Python's slice \<open>xs[start:end]\<close>: a negative bound counts from the end, and bounds are
  clipped to the length.
\<close>

definition slice_bound :: "int \<Rightarrow> int \<Rightarrow> int" where
  "slice_bound n x = (if x < 0 then max (x + n) 0 else min x n)"

definition py_slice :: "'a list \<Rightarrow> int \<Rightarrow> int \<Rightarrow> 'a list" where
  "py_slice xs start_idx end_idx =
     (let n = int (length xs);
          s = slice_bound n start_idx;
          e = slice_bound n end_idx
      in take (nat (e - s)) (drop (nat s) xs))"

text \<open>\<open>df.iloc[start_idx:end_idx]\<close> keeps the columns and slices the rows.\<close>

definition iloc :: "dataframe \<Rightarrow> int \<Rightarrow> int \<Rightarrow> dataframe" where
  "iloc df start_idx end_idx = df\<lparr>rows := py_slice (rows df) start_idx end_idx\<rparr>"

text \<open>The path \<open>data_dir / f"pima_client_{i}.csv"\<close>.\<close>

definition client_file :: "int \<Rightarrow> string" where
  "client_file i = ''data/pima_client_'' @ str_int i @ ''.csv''"

text \<open>
  The body of the loop over \<open>i\<close> in \<open>create_client_data_files\<close>: the shard of client
  \<open>i\<close>, for the chunk size computed before the loop.
\<close>

definition client_df :: "dataframe \<Rightarrow> int \<Rightarrow> int \<Rightarrow> int \<Rightarrow> dataframe" where
  "client_df df chunk_size num_clients i =
     (let start_idx = (i - 1) * chunk_size;
          end_idx = (if i < num_clients then start_idx + chunk_size else int (length (rows df)))
      in iloc df start_idx end_idx)"

definition write_client_file :: "dataframe \<Rightarrow> int \<Rightarrow> int \<Rightarrow> int \<Rightarrow> filesystem \<Rightarrow> filesystem" where
  "write_client_file df chunk_size num_clients i fs =
     fs(client_file i \<mapsto> client_df df chunk_size num_clients i)"

text \<open>
  \<open>create_client_data_files(num_clients, main_data)\<close>. A missing main data file makes
  it return \<open>False\<close> with nothing written. Otherwise the integer division raises for
  \<open>num_clients = 0\<close>, and \<open>range(1, num_clients + 1)\<close> is the list \<open>[1..num_clients]\<close>
  (empty when \<open>num_clients < 1\<close>); the function then returns \<open>True\<close>.
\<close>

definition create_client_data_files ::
  "int \<Rightarrow> string \<Rightarrow> filesystem \<Rightarrow> py_error + (bool \<times> filesystem)" where
  "create_client_data_files num_clients main_data fs =
     (case fs main_data of
        None \<Rightarrow> Inr (False, fs)
      | Some df \<Rightarrow>
          if num_clients = 0 then Inl ZeroDivisionError
          else
            let chunk_size = int (length (rows df)) div num_clients
            in Inr (True, fold (write_client_file df chunk_size num_clients) [1..num_clients] fs))"

text \<open>The data rows of the file at a path; a missing file has none.\<close>

definition file_rows :: "filesystem \<Rightarrow> string \<Rightarrow> string list list" where
  "file_rows fs p = (case fs p of None \<Rightarrow> [] | Some df \<Rightarrow> rows df)"

section \<open>The data preparation of the simulation driver (federated_sim.py)\<close>

text \<open>
  The first loop of \<open>simulate_federated_learning\<close>: a client file that does not exist is
  created from the main data set, when that exists, by the same slicing; the chunk
  size is computed inside the loop. The loop returns the list of the client files.
\<close>

definition ensure_client_file :: "int \<Rightarrow> int \<Rightarrow> filesystem \<Rightarrow> filesystem" where
  "ensure_client_file num_clients i fs =
     (if fs (client_file i) = None then
        (case fs ''data/pima_sample.csv'' of
           Some df \<Rightarrow>
             let chunk_size = int (length (rows df)) div num_clients
             in fs(client_file i \<mapsto> client_df df chunk_size num_clients i)
         | None \<Rightarrow> fs)
      else fs)"

definition prepare_client_data :: "int \<Rightarrow> filesystem \<Rightarrow> filesystem \<times> string list" where
  "prepare_client_data num_clients fs =
     (fold (ensure_client_file num_clients) [1..num_clients] fs, map client_file [1..num_clients])"

section \<open>The data model (models.py)\<close>

text \<open>
  A \<open>datetime\<close> is modelled by an integer that stands for the value the timestamp
  column holds for it: datetimes stored alike are equal numbers, and the order of the
  numbers is the order of the column.
  The tables keep their rows in insertion order. The primary key of a user is kept
  because profiles refer to it; the primary keys of the other tables and the
  \<open>created_at\<close> columns, which the storage engine fills in on insertion and which no
  operation modelled here reads, are left out.
\<close>

type_synonym datetime = int

record user =
  u_id :: nat
  email :: string
  password_hash :: string
  role :: string

record patient_profile =
  pp_user_id :: nat
  first_name :: "string option"
  last_name :: "string option"
  name :: "string option"
  age :: "int option"
  sex :: "string option"
  height_cm :: "pyfloat option"
  weight_kg :: "pyfloat option"

record glucose_reading =
  gr_user_id :: nat
  timestamp :: datetime
  glucose :: pyfloat
  source :: string

record risk_prediction =
  rp_user_id :: nat
  prediction :: int
  probability :: pyfloat

record alert =
  al_user_id :: nat
  message :: string
  level :: string

record audit_log =
  au_user_id :: "nat option"
  action :: string
  details :: "string option"
  ip_address :: "string option"

record database =
  users :: "user list"
  profiles :: "patient_profile list"
  readings :: "glucose_reading list"
  predictions :: "risk_prediction list"
  alerts :: "alert list"
  audit_logs :: "audit_log list"

text \<open>
  An identifier assigned on insertion is larger than every identifier in the table.
\<close>

definition next_id :: "nat list \<Rightarrow> nat" where
  "next_id ids = Suc (fold max ids 0)"

section \<open>Requests, responses and the library calls of the handlers (app.py)\<close>

text \<open>
  A reading as the handlers pass it around: a dictionary with the keys \<open>timestamp\<close>
  and \<open>glucose\<close>. The timestamp is \<open>Some s\<close> when it is a string and \<open>None\<close> when
  it is not (\<open>isinstance(..., str)\<close> is the only test the code makes on it).
\<close>

record reading =
  r_timestamp :: "string option"
  r_glucose :: pyfloat

type_synonym payload = "(string \<times> pyfloat) list"

text \<open>A row of \<open>csv.DictReader\<close>: column name to cell.\<close>

type_synonym csv_row = "string \<rightharpoonup> string"

text \<open>
  What the handlers call outside the files modelled here: the clock, the \<open>datetime\<close>
  parsers (\<open>None\<close> when the call raises \<open>ValueError\<close>), \<open>float\<close> on a string (\<open>None\<close>
  when it raises), the password hash, the request's remote address, and whether the
  insert of an audit entry fails. The modules \<open>ml.model\<close>, \<open>ml.federated_model\<close> and
  \<open>ml.forecast\<close> are not among the source files; their functions are parameters with
  the shape of their call sites. \<open>predict\<close> returns a label, a probability and the
  feature order, or raises (\<open>None\<close>); the label is \<open>Some i\<close> when \<open>int()\<close> accepts it and
  gives \<open>i\<close>, the probability \<open>Some x\<close> when \<open>float()\<close> accepts it and gives \<open>x\<close>.
  \<open>forecast_glucose\<close> returns a list of points, each with a timestamp and a glucose
  value. The JSON body of a forecast request is taken decoded. \<open>now_row e i\<close> is what
  \<open>datetime.now()\<close> returns while row \<open>i\<close> of an upload is stored, \<open>now_forecast e\<close>
  what it returns before the forecast points are cached.
\<close>

record env =
  remote_addr :: "string option"
  audit_write_fails :: bool
  generate_password_hash :: "string \<Rightarrow> string"
  federated_available :: bool
  federated_predict :: "payload \<Rightarrow> (int option \<times> pyfloat option \<times> string list) option"
  model_predict :: "payload \<Rightarrow> (int option \<times> pyfloat option \<times> string list) option"
  fromisoformat :: "string \<Rightarrow> datetime option"
  strptime :: "string \<Rightarrow> string \<Rightarrow> datetime option"
  isoformat :: "datetime \<Rightarrow> string"
  float_of_str :: "string \<Rightarrow> pyfloat option"
  forecast_glucose :: "reading list \<Rightarrow> reading list"
  now_row :: "nat \<Rightarrow> datetime"
  now_forecast :: datetime

text \<open>
  A form request and a request to the forecast API. \<open>json_readings\<close> is the entry
  \<open>readings\<close> of the decoded JSON body (\<open>None\<close> when the key is absent); \<open>files\<close> maps
  a multipart field to the rows \<open>csv.DictReader\<close> yields for the uploaded file.
\<close>

record form_request =
  req_method :: string
  form :: "string \<rightharpoonup> string"

record forecast_request =
  is_json :: bool
  json_readings :: "reading list option"
  files :: "string \<rightharpoonup> csv_row list"

text \<open>
  Responses. \<open>Render\<close> and \<open>Redirect\<close> carry the message flashed before them, with its
  category. \<open>Login_required\<close> is the answer of \<open>@login_required\<close> to an anonymous
  request, \<open>Bad_request\<close> the answer to a body that does not decode, \<open>Server_error\<close> the
  answer when another exception leaves the handler.
\<close>

datatype response =
    Render string "(string \<times> string) option"
  | Redirect string "(string \<times> string) option"
  | Login_required
  | Predict_json int pyfloat "string list"
  | Forecast_json "reading list" bool
  | Error_json string nat
  | Bad_request
  | Server_error

fun status_code :: "response \<Rightarrow> nat" where
  "status_code (Render _ _) = 200"
| "status_code (Redirect _ _) = 302"
| "status_code Login_required = 302"
| "status_code (Predict_json _ _ _) = 200"
| "status_code (Forecast_json _ _) = 200"
| "status_code (Error_json _ code) = code"
| "status_code Bad_request = 400"
| "status_code Server_error = 500"

definition login_required ::
  "user option \<Rightarrow> database \<Rightarrow> (user \<Rightarrow> database \<times> response) \<Rightarrow> database \<times> response" where
  "login_required current_user db fn =
     (case current_user of None \<Rightarrow> (db, Login_required) | Some u \<Rightarrow> fn u)"

definition role_required ::
  "string list \<Rightarrow> user option \<Rightarrow> database \<Rightarrow> (user \<Rightarrow> database \<times> response)
     \<Rightarrow> database \<times> response" where
  "role_required roles current_user db fn =
     (case current_user of
        None \<Rightarrow> (db, Redirect ''login'' None)
      | Some u \<Rightarrow>
          if role u \<notin> set roles then (db, Redirect ''index'' (Some (''Unauthorized'', ''error'')))
          else fn u)"

text \<open>
  \<open>log_audit\<close>: the entry is added and committed; when that raises, the session is
  rolled back, which drops the entry only, everything before it being committed.
\<close>

definition log_audit ::
  "env \<Rightarrow> database \<Rightarrow> nat option \<Rightarrow> string \<Rightarrow> string option \<Rightarrow> string option \<Rightarrow> database" where
  "log_audit e db user_id act det ip =
     (if audit_write_fails e then db
      else db\<lparr>audit_logs := audit_logs db @
             [\<lparr>au_user_id = user_id, action = act, details = det,
               ip_address = (case ip of
                               None \<Rightarrow> remote_addr e
                             | Some a \<Rightarrow> if a = [] then remote_addr e else Some a)\<rparr>]\<rparr>)"

section \<open>Registration, clinician creation and seeding\<close>

text \<open>
  \<open>str.strip()\<close>: leading and trailing whitespace removed; the whitespace characters
  below code point 256.
\<close>

definition is_space :: "char \<Rightarrow> bool" where
  "is_space c = ((of_char c :: nat) \<in> {9, 10, 11, 12, 13, 28, 29, 30, 31, 32, 133, 160})"

definition strip :: "string \<Rightarrow> string" where
  "strip s = rev (dropWhile is_space (rev (dropWhile is_space s)))"

text \<open>Truth value of a form field: \<open>None\<close> and the empty string are false.\<close>

definition truthy :: "string option \<Rightarrow> bool" where
  "truthy v = (case v of None \<Rightarrow> False | Some s \<Rightarrow> s \<noteq> [])"

text \<open>\<open>request.form.get(key, '')\<close>.\<close>

definition form_get :: "form_request \<Rightarrow> string \<Rightarrow> string" where
  "form_get rq key = (case form rq key of None \<Rightarrow> [] | Some s \<Rightarrow> s)"

text \<open>\<open>User.query.filter_by(email=email).first()\<close>.\<close>

definition user_by_email :: "database \<Rightarrow> string \<Rightarrow> user option" where
  "user_by_email db em = find (\<lambda>u. email u = em) (users db)"

text \<open>\<open>db.session.add\<close> of a new user, flushed: the user receives its identifier.\<close>

definition add_user :: "database \<Rightarrow> string \<Rightarrow> string \<Rightarrow> string \<Rightarrow> database \<times> user" where
  "add_user db em ph r =
     (let u = \<lparr>u_id = next_id (map u_id (users db)), email = em, password_hash = ph, role = r\<rparr>
      in (db\<lparr>users := users db @ [u]\<rparr>, u))"

definition add_profile :: "database \<Rightarrow> nat \<Rightarrow> string \<Rightarrow> string \<Rightarrow> string \<Rightarrow> database" where
  "add_profile db uid fname lname full =
     db\<lparr>profiles := profiles db @
          [\<lparr>pp_user_id = uid, first_name = Some fname, last_name = Some lname, name = Some full,
            age = None, sex = None, height_cm = None, weight_kg = None\<rparr>]\<rparr>"

definition register_error :: "database \<Rightarrow> string \<Rightarrow> database \<times> response" where
  "register_error db msg = (db, Render ''register.html'' (Some (msg, ''error'')))"

definition register :: "env \<Rightarrow> database \<Rightarrow> form_request \<Rightarrow> database \<times> response" where
  "register e db rq =
     (if req_method rq = ''POST'' then
        (case (form rq ''email'', form rq ''password'') of
           (Some em, Some password) \<Rightarrow>
             if em = [] \<or> password = [] then register_error db ''Email and password are required''
             else if Some password \<noteq> form rq ''confirm_password''
               then register_error db ''Passwords do not match''
             else if length password < 6
               then register_error db ''Password must be at least 6 characters long''
             else
               let fname = strip (form_get rq ''first_name'');
                   lname = strip (form_get rq ''last_name'')
               in if fname = [] \<or> lname = []
                    then register_error db ''First name and last name are required''
                  else if user_by_email db em \<noteq> None
                    then (db, Redirect ''login''
                            (Some (''Email already registered. Please login instead.'', ''error'')))
                  else
                    let (db1, u) = add_user db em (generate_password_hash e password) ''patient'';
                        full_name = fname @ '' '' @ lname;
                        db2 = add_profile db1 (u_id u) fname lname full_name;
                        db3 = log_audit e db2 (Some (u_id u)) ''user_register''
                                (Some (''New patient registered: '' @ em)) (remote_addr e)
                    in (db3, Redirect ''login''
                          (Some (''Registration successful! Please login.'', ''success'')))
         | _ \<Rightarrow> register_error db ''Email and password are required'')
      else (db, Render ''register.html'' None))"

definition admin_redirect :: "database \<Rightarrow> (string \<times> string) option \<Rightarrow> database \<times> response" where
  "admin_redirect db fl = (db, Redirect ''admin_dashboard'' fl)"

definition create_clinician ::
  "env \<Rightarrow> database \<Rightarrow> user option \<Rightarrow> form_request \<Rightarrow> database \<times> response" where
  "create_clinician e db current_user rq =
     login_required current_user db (\<lambda>_.
     role_required [''admin''] current_user db (\<lambda>admin.
       if req_method rq = ''POST'' then
         (case (form rq ''email'', form rq ''password'') of
            (Some em, Some password) \<Rightarrow>
              if em = [] \<or> password = []
                then admin_redirect db (Some (''Email and password are required'', ''error''))
              else if length password < 6
                then admin_redirect db
                       (Some (''Password must be at least 6 characters long'', ''error''))
              else if user_by_email db em \<noteq> None
                then admin_redirect db (Some (''Email already registered'', ''error''))
              else
                let (db1, clinician) =
                      add_user db em (generate_password_hash e password) ''clinician'';
                    db2 = log_audit e db1 (Some (u_id admin)) ''clinician_created''
                            (Some (''Admin created clinician: '' @ em)) (remote_addr e)
                in admin_redirect db2
                     (Some (''Clinician '' @ em @ '' created successfully'', ''success''))
          | _ \<Rightarrow> admin_redirect db (Some (''Email and password are required'', ''error'')))
       else admin_redirect db None))"

text \<open>
  \<open>seed_defaults\<close>. The profile of the fresh default patient is looked up through the
  relationship, by the patient's identifier.
\<close>

definition seed_defaults :: "env \<Rightarrow> database \<Rightarrow> database" where
  "seed_defaults e db =
     (let db1 = (if user_by_email db ''admin@example.com'' = None
                 then fst (add_user db ''admin@example.com''
                             (generate_password_hash e ''admin123'') ''admin'')
                 else db);
          db2 = (if user_by_email db1 ''clinician@example.com'' = None
                 then fst (add_user db1 ''clinician@example.com''
                             (generate_password_hash e ''password123'') ''clinician'')
                 else db1)
      in if user_by_email db2 ''patient@example.com'' = None
         then
           let (db3, patient) = add_user db2 ''patient@example.com''
                                  (generate_password_hash e ''password123'') ''patient''
           in if find (\<lambda>p. pp_user_id p = u_id patient) (profiles db3) = None
              then add_profile db3 (u_id patient) ''John'' ''Doe'' ''John Doe''
              else db3
         else db2)"

section \<open>The prediction API\<close>

text \<open>
  The format \<open>.2f\<close>: the value rounded to hundredths, a tie going to the even
  neighbour, written with its sign, its integer part and two decimals.
\<close>

definition round_half_even :: "rat \<Rightarrow> int" where
  "round_half_even x =
     (let f = \<lfloor>x\<rfloor>; r = x - of_int f
      in if r < 1 / 2 then f else if 1 / 2 < r then f + 1 else if even f then f else f + 1)"

definition format_2f :: "pyfloat \<Rightarrow> string" where
  "format_2f x =
     (let n = nat (round_half_even (\<bar>x\<bar> * 100))
      in (if x < 0 then ''-'' else []) @ str_nat (n div 100) @ ''.'' @
         [digit_char (n mod 100 div 10), digit_char (n mod 10)])"

text \<open>
  \<open>api_predict\<close>. The body is what \<open>request.get_json(force=True)\<close> returns, \<open>None\<close> when
  it raises on a body that is not JSON, which Flask answers with status 400. The model
  service returns \<open>None\<close> when \<open>predict\<close> raises; its label is \<open>None\<close> when \<open>int()\<close> rejects
  it and its probability \<open>None\<close> when \<open>float()\<close> rejects it. Both conversions are made
  while the RiskPrediction is built, before it is added, so each of these exceptions
  leaves the handler with nothing stored. The test is \<open>prob >= 0.7\<close> with the float
  \<open>0.7\<close>.
\<close>

definition api_predict ::
  "env \<Rightarrow> database \<Rightarrow> user option \<Rightarrow> payload option \<Rightarrow> database \<times> response" where
  "api_predict e db current_user body =
     login_required current_user db (\<lambda>u.
       case body of
         None \<Rightarrow> (db, Bad_request)
       | Some pl \<Rightarrow>
           (case (if federated_available e then federated_predict e pl else model_predict e pl) of
              None \<Rightarrow> (db, Server_error)
            | Some (pred_value, prob_value, features_order) \<Rightarrow>
                (case (pred_value, prob_value) of
                   (Some pred, Some prob) \<Rightarrow>
                     let db1 = db\<lparr>predictions := predictions db @
                                 [\<lparr>rp_user_id = u_id u, prediction = pred, probability = prob\<rparr>]\<rparr>;
                         db2 = (if float_0_7 \<le> prob
                                then db1\<lparr>alerts := alerts db1 @
                                       [\<lparr>al_user_id = u_id u,
                                         message = ''High diabetes risk: '' @ format_2f prob,
                                         level = ''high''\<rparr>]\<rparr>
                                else db1);
                         db3 = log_audit e db2 (Some (u_id u)) ''prediction_made''
                                 (Some (''Risk prediction: '' @ str_int pred @
                                        '', probability: '' @ format_2f prob))
                                 (remote_addr e)
                     in (db3, Predict_json pred prob features_order)
                 | _ \<Rightarrow> (db, Server_error))))"

section \<open>The forecast API\<close>

text \<open>
  \<open>float(row.get('glucose', '0') or 0)\<close>: a missing or empty cell gives 0, any other
  cell is converted, which may raise.
\<close>

definition row_glucose :: "env \<Rightarrow> csv_row \<Rightarrow> pyfloat option" where
  "row_glucose e row =
     (case row ''glucose'' of
        None \<Rightarrow> Some 0
      | Some s \<Rightarrow> if s = [] then Some 0 else float_of_str e s)"

text \<open>The loop over the rows of the reader; \<open>None\<close> when a conversion raises.\<close>

fun read_rows :: "env \<Rightarrow> csv_row list \<Rightarrow> reading list option" where
  "read_rows e [] = Some []"
| "read_rows e (row # rest) =
     (case row_glucose e row of
        None \<Rightarrow> None
      | Some g \<Rightarrow>
          (case read_rows e rest of
             None \<Rightarrow> None
           | Some rds \<Rightarrow> Some (\<lparr>r_timestamp = row ''timestamp'', r_glucose = g\<rparr> # rds)))"

text \<open>\<open>ts_str.replace('Z', '+00:00')\<close>: every \<open>Z\<close> is replaced.\<close>

definition replace_Z :: "string \<Rightarrow> string" where
  "replace_Z s = concat (map (\<lambda>c. if c = CHR ''Z'' then ''+00:00'' else [c]) s)"

text \<open>
  The timestamp of row \<open>i\<close> of an upload: the nested \<open>try\<close> blocks of the loop body.
  \<open>None\<close> means that the last \<open>strptime\<close> raised, which the enclosing \<open>except\<close> of the
  loop body catches.
\<close>

definition cgm_timestamp :: "env \<Rightarrow> nat \<Rightarrow> string option \<Rightarrow> datetime option" where
  "cgm_timestamp e i ts_str =
     (case ts_str of
        Some s \<Rightarrow>
          (case fromisoformat e (replace_Z s) of
             Some ts \<Rightarrow> Some ts
           | None \<Rightarrow>
               (case strptime e s ''%Y-%m-%d %H:%M:%S'' of
                  Some ts \<Rightarrow> Some ts
                | None \<Rightarrow> strptime e s ''%Y-%m-%dT%H:%M:%S''))
      | None \<Rightarrow> Some (now_row e i))"

text \<open>
  \<open>GlucoseReading.query.filter_by(user_id=..., timestamp=ts, source='cgm').first()\<close>.
  The query flushes the session first, so readings added earlier in the loop are found.
\<close>

definition existing_cgm :: "glucose_reading list \<Rightarrow> nat \<Rightarrow> datetime \<Rightarrow> glucose_reading option" where
  "existing_cgm rs uid ts =
     find (\<lambda>r. gr_user_id r = uid \<and> timestamp r = ts \<and> source r = ''cgm'') rs"

text \<open>
  The body of the storing loop for row \<open>i\<close>: on an exception the row is skipped
  (\<open>continue\<close>), an existing reading suppresses the insertion.
\<close>

definition store_cgm_reading ::
  "env \<Rightarrow> nat \<Rightarrow> nat \<Rightarrow> reading \<Rightarrow> glucose_reading list \<Rightarrow> glucose_reading list" where
  "store_cgm_reading e uid i rd rs =
     (case cgm_timestamp e i (r_timestamp rd) of
        None \<Rightarrow> rs
      | Some ts \<Rightarrow>
          (case existing_cgm rs uid ts of
             Some _ \<Rightarrow> rs
           | None \<Rightarrow>
               rs @ [\<lparr>gr_user_id = uid, timestamp = ts, glucose = r_glucose rd,
                      source = ''cgm''\<rparr>]))"

fun store_cgm_readings ::
  "env \<Rightarrow> nat \<Rightarrow> nat \<Rightarrow> reading list \<Rightarrow> glucose_reading list \<Rightarrow> glucose_reading list" where
  "store_cgm_readings e uid i [] rs = rs"
| "store_cgm_readings e uid i (rd # rds) rs =
     store_cgm_readings e uid (Suc i) rds (store_cgm_reading e uid i rd rs)"

text \<open>
  The fallback: the user's 50 latest readings, oldest first, as dictionaries.
\<close>

definition recent_readings :: "env \<Rightarrow> database \<Rightarrow> nat \<Rightarrow> reading list" where
  "recent_readings e db uid =
     (let db_readings =
            take 50 (rev (sort_key timestamp (filter (\<lambda>r. gr_user_id r = uid) (readings db))))
      in map (\<lambda>r. \<lparr>r_timestamp = Some (isoformat e (timestamp r)), r_glucose = glucose r\<rparr>)
           (rev db_readings))"

text \<open>
  The caching loop: the rows for the forecast points, \<open>None\<close> when \<open>fromisoformat\<close>
  raises on a point's timestamp. The rows are committed after the loop only.
\<close>

fun forecast_rows :: "env \<Rightarrow> nat \<Rightarrow> reading list \<Rightarrow> glucose_reading list option" where
  "forecast_rows e uid [] = Some []"
| "forecast_rows e uid (pt # pts) =
     (case (case r_timestamp pt of
              Some s \<Rightarrow> fromisoformat e s
            | None \<Rightarrow> Some (now_forecast e)) of
        None \<Rightarrow> None
      | Some ts \<Rightarrow>
          (case forecast_rows e uid pts of
             None \<Rightarrow> None
           | Some rs \<Rightarrow>
               Some (\<lparr>gr_user_id = uid, timestamp = ts, glucose = r_glucose pt,
                      source = ''forecast''\<rparr> # rs)))"

text \<open>
  The part of \<open>api_forecast\<close> after the branches on the request: fallback, forecast,
  caching, answer. An exception in the caching loop leaves the handler before the
  commit, so none of the forecast rows is stored.
\<close>

definition forecast_and_cache ::
  "env \<Rightarrow> database \<Rightarrow> user \<Rightarrow> reading list \<Rightarrow> bool \<Rightarrow> database \<times> response" where
  "forecast_and_cache e db u rds cgm_uploaded =
     (let rds' = (if rds = [] then recent_readings e db (u_id u) else rds);
          forecast_points = forecast_glucose e rds'
      in case forecast_rows e (u_id u) forecast_points of
           None \<Rightarrow> (db, Server_error)
         | Some new \<Rightarrow>
             (db\<lparr>readings := readings db @ new\<rparr>, Forecast_json forecast_points cgm_uploaded))"

definition api_forecast ::
  "env \<Rightarrow> database \<Rightarrow> user option \<Rightarrow> forecast_request \<Rightarrow> database \<times> response" where
  "api_forecast e db current_user rq =
     login_required current_user db (\<lambda>u.
       if is_json rq then
         forecast_and_cache e db u (case json_readings rq of None \<Rightarrow> [] | Some rds \<Rightarrow> rds) False
       else
         (case files rq ''file'' of
            Some csv \<Rightarrow>
              (case read_rows e csv of
                 None \<Rightarrow> (db, Server_error)
               | Some rds \<Rightarrow>
                   let db1 = db\<lparr>readings := store_cgm_readings e (u_id u) 0 rds (readings db)\<rparr>;
                       db2 = log_audit e db1 (Some (u_id u)) ''cgm_uploaded''
                               (Some (''CGM data uploaded: '' @ str_nat (length rds) @ '' readings''))
                               (remote_addr e)
                   in forecast_and_cache e db2 u rds True)
          | None \<Rightarrow> (db, Error_json ''No data provided'' 400)))"

text \<open>
  The query of the CSV export: all readings of a patient, oldest first.
\<close>

definition export_readings :: "database \<Rightarrow> nat \<Rightarrow> glucose_reading list" where
  "export_readings db patient_id =
     sort_key timestamp (filter (\<lambda>r. gr_user_id r = patient_id) (readings db))"

text \<open>
  The number of stored readings with source \<open>cgm\<close> of a user at a timestamp.
\<close>

definition cgm_count :: "glucose_reading list \<Rightarrow> nat \<Rightarrow> datetime \<Rightarrow> nat" where
  "cgm_count rs uid ts =
     length (filter (\<lambda>r. gr_user_id r = uid \<and> timestamp r = ts \<and> source r = ''cgm'') rs)"

text \<open>
  A stored reading caches a forecast point for a user: it belongs to the user, has the
  source \<open>forecast\<close> and the point's glucose value, and its timestamp is the point's
  own, parsed, when that is a string, and the time of the request otherwise.
\<close>

definition cached_point :: "env \<Rightarrow> nat \<Rightarrow> reading \<Rightarrow> glucose_reading \<Rightarrow> bool" where
  "cached_point e uid pt r \<longleftrightarrow>
     gr_user_id r = uid \<and> source r = ''forecast'' \<and> glucose r = r_glucose pt \<and>
     (case r_timestamp pt of
        Some s \<Rightarrow> fromisoformat e s = Some (timestamp r)
      | None \<Rightarrow> timestamp r = now_forecast e)"

section \<open>A concrete environment\<close>

text \<open>
  An environment on which the handlers are evaluated in the examples below. The library
  calls are tabulated on the strings the examples use, with Python's results there
  (datetimes as seconds since 1970, in UTC); on every other string the parsers raise,
  and \<open>isoformat\<close> is given on two datetimes only.
  \<open>2024-1-1 8:10:00\<close> is not ISO-8601 but matches \<open>%Y-%m-%d %H:%M:%S\<close>, and
  \<open>2024-1-1T8:15:00\<close> matches the third format only.
\<close>

definition example_env :: env where
  "example_env =
     \<lparr>remote_addr = Some ''127.0.0.1'',
      audit_write_fails = False,
      generate_password_hash = (\<lambda>p. ''pbkdf2:'' @ p),
      federated_available = False,
      federated_predict = (\<lambda>_. Some (Some 0, Some (1 / 4), [''Glucose'', ''BMI''])),
      model_predict = (\<lambda>_. Some (Some 1, Some (3 / 4), [''Glucose'', ''BMI''])),
      fromisoformat = map_of
        [(''2024-01-01T08:00:00'', 1704096000),
         (''2024-01-01T08:00:00+00:00'', 1704096000),
         (''2024-01-01T08:05:00'', 1704096300),
         (''2024-01-01T09:00:00'', 1704099600)],
      strptime = (\<lambda>s f. map_of
        [((''2024-01-01T08:00:00'', ''%Y-%m-%dT%H:%M:%S''), 1704096000),
         ((''2024-01-01T08:05:00'', ''%Y-%m-%dT%H:%M:%S''), 1704096300),
         ((''2024-1-1 8:10:00'', ''%Y-%m-%d %H:%M:%S''), 1704096600),
         ((''2024-1-1T8:15:00'', ''%Y-%m-%dT%H:%M:%S''), 1704096900)] (s, f)),
      isoformat = (\<lambda>t. if t = 1704096000 then ''2024-01-01T08:00:00''
                        else if t = 1704096300 then ''2024-01-01T08:05:00''
                        else ''1970-01-01T00:00:00''),
      float_of_str = map_of [(''110'', 110), (''5.5'', 11 / 2), (''98.5'', 197 / 2)],
      forecast_glucose = (\<lambda>rds.
        [\<lparr>r_timestamp = Some ''2024-01-01T09:00:00'', r_glucose = 112\<rparr>,
         \<lparr>r_timestamp = None, r_glucose = 115\<rparr>]),
      now_row = (\<lambda>i. 1704100000 + int i),
      now_forecast = 1704100100\<rparr>"

definition example_user :: user where
  "example_user =
     \<lparr>u_id = 3, email = ''patient@example.com'', password_hash = ''pbkdf2:password123'',
      role = ''patient''\<rparr>"

definition example_admin :: user where
  "example_admin =
     \<lparr>u_id = 1, email = ''admin@example.com'', password_hash = ''pbkdf2:admin123'',
      role = ''admin''\<rparr>"

definition example_db :: database where
  "example_db =
     \<lparr>users = [example_admin, example_user], profiles = [], readings = [], predictions = [],
      alerts = [], audit_logs = []\<rparr>"

text \<open>
  An upload of five rows: two with the same timestamp, one whose timestamp no format
  accepts, one without timestamp and with an empty glucose cell, and one in the
  second format. A JSON request that also carries the file, and a request with
  neither.
\<close>

definition example_csv :: "csv_row list" where
  "example_csv =
     [[''timestamp'' \<mapsto> ''2024-01-01T08:00:00Z'', ''glucose'' \<mapsto> ''110''],
      [''timestamp'' \<mapsto> ''2024-01-01T08:00:00Z'', ''glucose'' \<mapsto> ''5.5''],
      [''timestamp'' \<mapsto> ''not a date'', ''glucose'' \<mapsto> ''98.5''],
      [''glucose'' \<mapsto> []],
      [''timestamp'' \<mapsto> ''2024-1-1 8:10:00'', ''glucose'' \<mapsto> ''110'']]"

definition example_upload :: forecast_request where
  "example_upload = \<lparr>is_json = False, json_readings = None, files = [''file'' \<mapsto> example_csv]\<rparr>"

definition example_json_request :: forecast_request where
  "example_json_request =
     \<lparr>is_json = True,
      json_readings = Some [\<lparr>r_timestamp = Some ''2024-01-01T08:00:00'', r_glucose = 110\<rparr>],
      files = [''file'' \<mapsto> example_csv]\<rparr>"

definition example_empty_request :: forecast_request where
  "example_empty_request = \<lparr>is_json = False, json_readings = None, files = Map.empty\<rparr>"

text \<open>
  A registration form, a clinician creation form and the empty database.
\<close>

definition example_form :: form_request where
  "example_form =
     \<lparr>req_method = ''POST'',
      form = [''email'' \<mapsto> ''ada@example.com'', ''password'' \<mapsto> ''secret1'',
              ''confirm_password'' \<mapsto> ''secret1'', ''first_name'' \<mapsto> '' Ada '',
              ''last_name'' \<mapsto> ''Lovelace'']\<rparr>"

definition example_clinician_form :: form_request where
  "example_clinician_form =
     \<lparr>req_method = ''POST'',
      form = [''email'' \<mapsto> ''doc@example.com'', ''password'' \<mapsto> ''secret1'']\<rparr>"

definition empty_db :: database where
  "empty_db = \<lparr>users = [], profiles = [], readings = [], predictions = [], alerts = [],
                audit_logs = []\<rparr>"

section \<open>Decimal rendering is injective\<close>

lemma digit_char_numeral:
  "digit_char 0 = CHR ''0''" "digit_char 1 = CHR ''1''" "digit_char 2 = CHR ''2''"
  "digit_char 3 = CHR ''3''" "digit_char 4 = CHR ''4''" "digit_char 5 = CHR ''5''"
  "digit_char 6 = CHR ''6''" "digit_char 7 = CHR ''7''" "digit_char 8 = CHR ''8''"
  "digit_char 9 = CHR ''9''" "digit_char (Suc 0) = CHR ''1''"
  by (simp_all add: digit_char_def)

lemma of_char_digit_char: "d < 10 \<Longrightarrow> of_char (digit_char d) = 48 + d"
proof -
  assume "d < 10"
  then have "d \<in> {0, 1, 2, 3, 4, 5, 6, 7, 8, 9}" by auto
  then show ?thesis by (auto simp: digit_char_numeral)
qed

lemma digits_value_snoc:
  "digits_value (s @ [c]) = 10 * digits_value s + (of_char c - 48)"
  by (simp add: digits_value_def)

lemma digits_value_str_nat: "digits_value (str_nat n) = n"
proof (induction n rule: str_nat.induct)
  case (1 n)
  show ?case
  proof (cases "n < 10")
    case True
    then show ?thesis
      by (simp add: str_nat.simps [of n] digits_value_def of_char_digit_char)
  next
    case False
    with 1 have "digits_value (str_nat (n div 10)) = n div 10" by simp
    with False show ?thesis
      by (simp add: str_nat.simps [of n] digits_value_snoc of_char_digit_char)
  qed
qed

lemma str_nat_inject: "str_nat m = str_nat n \<Longrightarrow> m = n"
  by (metis digits_value_str_nat)

section \<open>Partitioning: files written and their contents\<close>

lemma str_nat_nonempty: "str_nat n \<noteq> []"
  by (subst str_nat.simps) simp

lemma str_int_inject: "0 \<le> i \<Longrightarrow> 0 \<le> j \<Longrightarrow> str_int i = str_int j \<Longrightarrow> i = j"
  by (auto simp: str_int_def dest: str_nat_inject)

lemma client_file_inject: "0 \<le> i \<Longrightarrow> 0 \<le> j \<Longrightarrow> client_file i = client_file j \<Longrightarrow> i = j"
  by (auto simp: client_file_def dest: str_int_inject)

lemma write_client_file_apply:
  "write_client_file df c k i fs p = (if p = client_file i then Some (client_df df c k i) else fs p)"
  by (simp add: write_client_file_def)

lemma fold_write_other:
  "p \<notin> client_file ` set xs \<Longrightarrow> fold (write_client_file df c k) xs fs p = fs p"
proof (induction xs arbitrary: fs)
  case Nil
  then show ?case by simp
next
  case (Cons x xs)
  then have "fold (write_client_file df c k) xs (write_client_file df c k x fs) p
      = write_client_file df c k x fs p" by simp
  also from Cons.prems have "\<dots> = fs p" by (auto simp: write_client_file_def)
  finally show ?case by simp
qed

lemma fold_write_at:
  "i \<in> set xs \<Longrightarrow> \<forall>j\<in>set xs. 0 \<le> j \<Longrightarrow>
   fold (write_client_file df c k) xs fs (client_file i) = Some (client_df df c k i)"
proof (induction xs arbitrary: fs)
  case Nil
  then show ?case by simp
next
  case (Cons x xs)
  show ?case
  proof (cases "i \<in> set xs")
    case True
    with Cons show ?thesis by simp
  next
    case False
    with Cons.prems have ix: "i = x" by simp
    have "client_file i \<notin> client_file ` set xs"
    proof
      assume "client_file i \<in> client_file ` set xs"
      then obtain j where j: "j \<in> set xs" "client_file i = client_file j" by auto
      with Cons.prems have "0 \<le> i" "0 \<le> j" by auto
      with j have "i = j" using client_file_inject by blast
      with j False show False by simp
    qed
    then have "fold (write_client_file df c k) xs (write_client_file df c k x fs) (client_file i)
        = write_client_file df c k x fs (client_file i)"
      by (rule fold_write_other)
    moreover have "write_client_file df c k x fs (client_file i) = Some (client_df df c k i)"
      by (simp add: ix write_client_file_def)
    ultimately show ?thesis
      by (simp add: ix)
  qed
qed

lemma py_slice_nonneg:
  "0 \<le> s \<Longrightarrow> s \<le> e \<Longrightarrow> e \<le> int (length xs) \<Longrightarrow>
   py_slice xs s e = take (nat (e - s)) (drop (nat s) xs)"
  by (simp add: py_slice_def slice_bound_def Let_def min_def)

lemma length_py_slice_nonneg:
  "0 \<le> s \<Longrightarrow> s \<le> e \<Longrightarrow> e \<le> int (length xs) \<Longrightarrow> length (py_slice xs s e) = nat (e - s)"
  by (auto simp add: py_slice_nonneg)

lemma upto_as_map: "[1..int k] = map (\<lambda>j. int j + 1) [0..<k]"
proof (induction k)
  case 0
  then show ?case by simp
next
  case (Suc k)
  have "[1..int (Suc k)] = [1..int k] @ [int k + 1]"
    by (simp add: upto_rec2 add.commute)
  with Suc show ?case by simp
qed

lemma concat_chunks: "concat (map (\<lambda>j. take c (drop (j * c) xs)) [0..<m]) = take (m * c) xs"
proof (induction m)
  case 0
  then show ?case by simp
next
  case (Suc m)
  have "take (m * c + c) xs = take (m * c) xs @ take c (drop (m * c) xs)"
    by (rule take_add)
  then have "take (Suc m * c) xs = take (m * c) xs @ take c (drop (m * c) xs)"
    by (simp only: mult_Suc add.commute)
  with Suc show ?case by simp
qed


lemma create_client_data_files_fold:
  "fs main_data = Some df \<Longrightarrow> 1 \<le> k \<Longrightarrow>
   create_client_data_files k main_data fs =
     Inr (True, fold (write_client_file df (int (length (rows df)) div k) k) [1..k] fs)"
  by (simp add: create_client_data_files_def)

lemma fold_write_upto_at:
  "1 \<le> i \<Longrightarrow> i \<le> k \<Longrightarrow>
   fold (write_client_file df c k) [1..k] fs (client_file i) = Some (client_df df c k i)"
  by (rule fold_write_at) auto

lemma chunk_times_le:
  assumes "1 \<le> i" "i \<le> k"
  shows "i * (int n div k) \<le> int n"
proof -
  have c0: "0 \<le> int n div k" using assms by (simp add: pos_imp_zdiv_nonneg_iff)
  have "i * (int n div k) \<le> k * (int n div k)"
    using assms c0 by (intro mult_right_mono) auto
  also have "\<dots> \<le> int n"
  proof -
    have "k * (int n div k) + int n mod k = int n" by simp
    moreover have "0 \<le> int n mod k" using assms by simp
    ultimately show ?thesis by linarith
  qed
  finally show ?thesis .
qed

lemma client_df_inner:
  assumes "1 \<le> i" "i < k"
  shows "client_df df (int (length (rows df)) div k) k i =
         df\<lparr>rows := take (nat (int (length (rows df)) div k))
                       (drop (nat ((i - 1) * (int (length (rows df)) div k))) (rows df))\<rparr>"
proof -
  let ?c = "int (length (rows df)) div k"
  have c0: "0 \<le> ?c" using assms by (simp add: pos_imp_zdiv_nonneg_iff)
  have s0: "0 \<le> (i - 1) * ?c" using assms c0 by simp
  have "i * ?c \<le> int (length (rows df))" using assms by (intro chunk_times_le) auto
  then have e: "(i - 1) * ?c + ?c \<le> int (length (rows df))" by (simp add: algebra_simps)
  have "py_slice (rows df) ((i - 1) * ?c) ((i - 1) * ?c + ?c)
        = take (nat ((i - 1) * ?c + ?c - (i - 1) * ?c)) (drop (nat ((i - 1) * ?c)) (rows df))"
    using s0 c0 e by (intro py_slice_nonneg) auto
  then show ?thesis using assms by (simp add: client_df_def iloc_def Let_def)
qed

lemma client_df_last:
  assumes "1 \<le> k"
  shows "client_df df (int (length (rows df)) div k) k k =
         df\<lparr>rows := drop (nat ((k - 1) * (int (length (rows df)) div k))) (rows df)\<rparr>"
proof -
  let ?c = "int (length (rows df)) div k"
  let ?n = "int (length (rows df))"
  have c0: "0 \<le> ?c" using assms by (simp add: pos_imp_zdiv_nonneg_iff)
  have s0: "0 \<le> (k - 1) * ?c" using assms c0 by simp
  have "k * ?c \<le> ?n" using assms by (intro chunk_times_le) auto
  then have e: "(k - 1) * ?c \<le> ?n" using c0 by (simp add: algebra_simps)
  have "py_slice (rows df) ((k - 1) * ?c) ?n
        = take (nat (?n - (k - 1) * ?c)) (drop (nat ((k - 1) * ?c)) (rows df))"
    using s0 e by (intro py_slice_nonneg) auto
  also have "\<dots> = drop (nat ((k - 1) * ?c)) (rows df)"
    using s0 e by (intro take_all) (simp add: nat_diff_distrib)
  finally show ?thesis by (simp add: client_df_def iloc_def Let_def)
qed

lemma concat_client_rows:
  assumes "1 \<le> k"
  shows "concat (map (\<lambda>i. rows (client_df df (int (length (rows df)) div k) k i)) [1..k]) = rows df"
proof -
  let ?c = "int (length (rows df)) div k"
  let ?xs = "rows df"
  obtain m where k: "k = int (Suc m)"
    using assms by (metis Suc_pred' nat_0_less_mult_iff nat_int of_nat_0_less_iff zero_less_nat_eq
        int_nat_eq less_le_trans zero_less_one le_less)
  have c0: "0 \<le> ?c" using assms by (simp add: pos_imp_zdiv_nonneg_iff)
  have split: "[1..k] = map (\<lambda>j. int j + 1) [0..<m] @ [k]"
    using upto_as_map [of "Suc m"] by (simp add: k)
  have inner: "map (\<lambda>i. rows (client_df df ?c k i)) (map (\<lambda>j. int j + 1) [0..<m])
       = map (\<lambda>j. take (nat ?c) (drop (j * nat ?c) ?xs)) [0..<m]"
  proof -
    have "rows (client_df df ?c k (int j + 1)) = take (nat ?c) (drop (j * nat ?c) ?xs)"
      if "j < m" for j
    proof -
      have "1 \<le> int j + 1" "int j + 1 < k" using that by (simp_all add: k)
      then have "client_df df ?c k (int j + 1) =
          df\<lparr>rows := take (nat ?c) (drop (nat ((int j + 1 - 1) * ?c)) ?xs)\<rparr>"
        by (rule client_df_inner)
      moreover have "nat ((int j + 1 - 1) * ?c) = j * nat ?c"
        using c0 by (simp add: nat_mult_distrib)
      ultimately show ?thesis by simp
    qed
    then show ?thesis by simp
  qed
  have lastc: "rows (client_df df ?c k k) = drop (m * nat ?c) ?xs"
  proof -
    have "nat ((k - 1) * ?c) = m * nat ?c" using c0 by (simp add: k nat_mult_distrib)
    then show ?thesis using client_df_last [OF assms, of df] by simp
  qed
  have "concat (map (\<lambda>i. rows (client_df df ?c k i)) [1..k])
      = concat (map (\<lambda>j. take (nat ?c) (drop (j * nat ?c) ?xs)) [0..<m]) @ drop (m * nat ?c) ?xs"
    by (simp only: split map_append concat_append inner lastc list.map concat.simps append_Nil2)
  also have "\<dots> = take (m * nat ?c) ?xs @ drop (m * nat ?c) ?xs"
    by (simp only: concat_chunks)
  finally show ?thesis by simp
qed

lemma file_rows_fold_write:
  "1 \<le> i \<Longrightarrow> i \<le> k \<Longrightarrow>
   file_rows (fold (write_client_file df c k) [1..k] fs) (client_file i) = rows (client_df df c k i)"
  by (simp add: file_rows_def fold_write_upto_at)

text \<open>
  On a file system with the main data set and none of the client files, the driver's
  loop writes what the utility writes.
\<close>

lemma client_file_not_sample: "client_file i \<noteq> ''data/pima_sample.csv''"
  by (simp add: client_file_def)

lemma fold_ensure_eq_write:
  assumes "fs ''data/pima_sample.csv'' = Some df"
    and "\<forall>i\<in>set xs. fs (client_file i) = None"
    and "distinct xs" and "\<forall>i\<in>set xs. 0 \<le> i"
  shows "fold (ensure_client_file k) xs fs =
         fold (write_client_file df (int (length (rows df)) div k) k) xs fs"
  using assms
proof (induction xs arbitrary: fs)
  case Nil
  then show ?case by simp
next
  case (Cons x xs)
  let ?fs = "write_client_file df (int (length (rows df)) div k) k x fs"
  have step: "ensure_client_file k x fs = ?fs"
    using Cons.prems(1,2) by (simp add: ensure_client_file_def write_client_file_def Let_def)
  have main: "?fs ''data/pima_sample.csv'' = Some df"
    using Cons.prems(1) client_file_not_sample [of x]
    by (simp add: write_client_file_apply)
  have none: "\<forall>i\<in>set xs. ?fs (client_file i) = None"
  proof
    fix i assume i: "i \<in> set xs"
    with Cons.prems(3) have "i \<noteq> x" by auto
    moreover from i Cons.prems(4) have "0 \<le> i" "0 \<le> x" by auto
    ultimately have "client_file i \<noteq> client_file x" using client_file_inject by blast
    with i Cons.prems(2) show "?fs (client_file i) = None"
      by (simp add: write_client_file_apply)
  qed
  have "fold (ensure_client_file k) xs ?fs =
      fold (write_client_file df (int (length (rows df)) div k) k) xs ?fs"
    using main none Cons.prems(3,4) by (intro Cons.IH) auto
  then show ?case by (simp add: step)
qed

lemma prepare_client_data_as_utility:
  assumes "fs ''data/pima_sample.csv'' = Some df" and "1 \<le> k"
    and "\<forall>i\<in>{1..k}. fs (client_file i) = None"
  shows "create_client_data_files k ''data/pima_sample.csv'' fs =
           Inr (True, fst (prepare_client_data k fs))"
proof -
  have "fold (ensure_client_file k) [1..k] fs =
      fold (write_client_file df (int (length (rows df)) div k) k) [1..k] fs"
    using assms by (intro fold_ensure_eq_write) auto
  then show ?thesis
    using assms(1,2) by (simp add: prepare_client_data_def create_client_data_files_fold)
qed

text \<open>
  C5. For a source data set of \<open>R\<close> rows and a client count \<open>k\<close> with \<open>1 \<le> k \<le> R\<close>,
  the utility returns \<open>True\<close> and writes the files of the clients \<open>1\<close> to \<open>k\<close>. The
  file of client \<open>i\<close> has the columns of the source and holds the rows of the source from
  offset \<open>(i - 1) * (R div k)\<close> on: \<open>R div k\<close> of them for \<open>i < k\<close>, and the remaining
  \<open>R - (k - 1) * (R div k)\<close> for \<open>i = k\<close>. The shards read in order are the source, row
  by row, and no other file changes.
\<close>

theorem create_client_data_files_shards:
  assumes "fs main_data = Some df" and "1 \<le> k" and "k \<le> int (length (rows df))"
  shows "\<exists>fs'. create_client_data_files k main_data fs = Inr (True, fs')
     \<and> (\<forall>i\<in>{1..k}. \<exists>shard.
           fs' (client_file i) = Some shard
         \<and> columns shard = columns df
         \<and> rows shard = take (length (rows shard))
                            (drop (nat ((i - 1) * (int (length (rows df)) div k))) (rows df))
         \<and> int (length (rows shard)) =
             (if i < k then int (length (rows df)) div k
              else int (length (rows df)) - (k - 1) * (int (length (rows df)) div k)))
     \<and> concat (map (\<lambda>i. file_rows fs' (client_file i)) [1..k]) = rows df
     \<and> (\<forall>p. p \<notin> client_file ` {1..k} \<longrightarrow> fs' p = fs p)"
proof -
  let ?n = "int (length (rows df))"
  let ?c = "?n div k"
  let ?fs = "fold (write_client_file df ?c k) [1..k] fs"
  have c0: "0 \<le> ?c" using assms by (simp add: pos_imp_zdiv_nonneg_iff)
  have res: "create_client_data_files k main_data fs = Inr (True, ?fs)"
    using assms by (simp add: create_client_data_files_fold)
  have shard: "\<exists>shard. ?fs (client_file i) = Some shard
         \<and> columns shard = columns df
         \<and> rows shard = take (length (rows shard)) (drop (nat ((i - 1) * ?c)) (rows df))
         \<and> int (length (rows shard)) = (if i < k then ?c else ?n - (k - 1) * ?c)"
    if i: "i \<in> {1..k}" for i
  proof (cases "i < k")
    case True
    from i have i1: "1 \<le> i" "i \<le> k" by auto
    have f: "?fs (client_file i) = Some (client_df df ?c k i)"
      using i1 by (rule fold_write_upto_at)
    have d: "client_df df ?c k i = df\<lparr>rows := take (nat ?c) (drop (nat ((i - 1) * ?c)) (rows df))\<rparr>"
      using i1(1) True by (rule client_df_inner)
    have "i * ?c \<le> ?n" using i1 by (rule chunk_times_le)
    then have "(i - 1) * ?c + ?c \<le> ?n" by (simp add: algebra_simps)
    moreover have "0 \<le> (i - 1) * ?c" using i1 c0 by simp
    ultimately have len: "length (take (nat ?c) (drop (nat ((i - 1) * ?c)) (rows df))) = nat ?c"
      using c0 by (simp add: min_def) linarith
    show ?thesis using f d len True c0 by simp
  next
    case False
    with i have ik: "i = k" by auto
    have f: "?fs (client_file k) = Some (client_df df ?c k k)"
      using assms(2) by (intro fold_write_upto_at) auto
    have d: "client_df df ?c k k = df\<lparr>rows := drop (nat ((k - 1) * ?c)) (rows df)\<rparr>"
      using assms(2) by (rule client_df_last)
    have "k * ?c \<le> ?n" using assms(2) by (intro chunk_times_le) auto
    then have e: "(k - 1) * ?c \<le> ?n" using c0 by (simp add: algebra_simps)
    moreover have s0: "0 \<le> (k - 1) * ?c" using assms(2) c0 by simp
    ultimately have len: "int (length (drop (nat ((k - 1) * ?c)) (rows df))) = ?n - (k - 1) * ?c"
      by simp
    show ?thesis using f d len by (simp add: ik)
  qed
  have cat: "concat (map (\<lambda>i. file_rows ?fs (client_file i)) [1..k]) = rows df"
  proof -
    have "map (\<lambda>i. file_rows ?fs (client_file i)) [1..k]
        = map (\<lambda>i. rows (client_df df ?c k i)) [1..k]"
      by (rule map_cong [OF refl]) (simp add: file_rows_fold_write)
    then have "concat (map (\<lambda>i. file_rows ?fs (client_file i)) [1..k])
        = concat (map (\<lambda>i. rows (client_df df ?c k i)) [1..k])"
      by (rule arg_cong)
    also have "\<dots> = rows df" using assms(2) by (rule concat_client_rows)
    finally show ?thesis .
  qed
  have other: "\<forall>p. p \<notin> client_file ` {1..k} \<longrightarrow> ?fs p = fs p"
    by (simp add: fold_write_other)
  from res shard cat other show ?thesis by blast
qed

theorem create_client_data_files_shards_witness:
  "[''data/pima_sample.csv'' \<mapsto> \<lparr>columns = [''Glucose'', ''Age''], rows = replicate 100 [''120'', ''33'']\<rparr>]
      ''data/pima_sample.csv'' = Some \<lparr>columns = [''Glucose'', ''Age''], rows = replicate 100 [''120'', ''33'']\<rparr>
   \<and> (1::int) \<le> 3
   \<and> (3::int) \<le> int (length (rows \<lparr>columns = [''Glucose'', ''Age''], rows = replicate 100 [''120'', ''33'']\<rparr>))
   \<and> (\<exists>fs'. create_client_data_files 3 ''data/pima_sample.csv''
          [''data/pima_sample.csv'' \<mapsto> \<lparr>columns = [''Glucose'', ''Age''], rows = replicate 100 [''120'', ''33'']\<rparr>]
            = Inr (True, fs')
        \<and> length (file_rows fs' (client_file 1)) = 33
        \<and> length (file_rows fs' (client_file 2)) = 33
        \<and> length (file_rows fs' (client_file 3)) = 34
        \<and> concat (map (\<lambda>i. file_rows fs' (client_file i)) [1..3]) = replicate 100 [''120'', ''33''])"
proof -
  let ?df = "\<lparr>columns = [''Glucose'', ''Age''], rows = replicate 100 [''120'', ''33'']\<rparr>"
  let ?fs = "[''data/pima_sample.csv'' \<mapsto> ?df]"
  have h1: "?fs ''data/pima_sample.csv'' = Some ?df" by simp
  have h2: "(1::int) \<le> 3" by simp
  have h3: "(3::int) \<le> int (length (rows ?df))" by simp
  from create_client_data_files_shards [where fs = "?fs" and main_data = "''data/pima_sample.csv''"
      and df = "?df" and k = 3, OF h1 h2 h3]
  obtain fs' where r: "create_client_data_files 3 ''data/pima_sample.csv'' ?fs = Inr (True, fs')"
    and sh: "\<forall>i\<in>{1..3}. \<exists>shard. fs' (client_file i) = Some shard
         \<and> columns shard = columns ?df
         \<and> rows shard = take (length (rows shard))
                            (drop (nat ((i - 1) * (int (length (rows ?df)) div 3))) (rows ?df))
         \<and> int (length (rows shard)) =
             (if i < 3 then int (length (rows ?df)) div 3
              else int (length (rows ?df)) - (3 - 1) * (int (length (rows ?df)) div 3))"
    and cat: "concat (map (\<lambda>i. file_rows fs' (client_file i)) [1..3]) = rows ?df"
    by blast
  from sh have "\<exists>shard. fs' (client_file 1) = Some shard \<and> int (length (rows shard)) = 33"
    by (auto dest!: bspec [where x = 1])
  then have l1: "length (file_rows fs' (client_file 1)) = 33"
    by (auto simp: file_rows_def)
  from sh have "\<exists>shard. fs' (client_file 2) = Some shard \<and> int (length (rows shard)) = 33"
    by (auto dest!: bspec [where x = 2])
  then have l2: "length (file_rows fs' (client_file 2)) = 33"
    by (auto simp: file_rows_def)
  from sh have "\<exists>shard. fs' (client_file 3) = Some shard \<and> int (length (rows shard)) = 34"
    by (auto dest!: bspec [where x = 3])
  then have l3: "length (file_rows fs' (client_file 3)) = 34"
    by (auto simp: file_rows_def)
  from cat have c: "concat (map (\<lambda>i. file_rows fs' (client_file i)) [1..3]) = replicate 100 [''120'', ''33'']"
    by simp
  from h1 h2 h3 r l1 l2 l3 c show ?thesis by blast
qed

text \<open>
  C10. With fewer rows than clients (\<open>R < k\<close>, \<open>1 \<le> k\<close>) the utility still returns
  \<open>True\<close>: the chunk size \<open>R div k\<close> is 0, the files of the clients \<open>1\<close> to \<open>k - 1\<close> are
  written with no data row, and the file of client \<open>k\<close> receives all \<open>R\<close> rows.
\<close>

theorem create_client_data_files_few_rows:
  assumes "fs main_data = Some df" and "1 \<le> k" and "int (length (rows df)) < k"
  shows "\<exists>fs'. create_client_data_files k main_data fs = Inr (True, fs')
     \<and> int (length (rows df)) div k = 0
     \<and> (\<forall>i\<in>{1..k - 1}. fs' (client_file i) = Some (df\<lparr>rows := []\<rparr>))
     \<and> fs' (client_file k) = Some df"
proof -
  let ?n = "int (length (rows df))"
  let ?fs = "fold (write_client_file df (?n div k) k) [1..k] fs"
  have c: "?n div k = 0" using assms by (simp add: div_pos_pos_trivial)
  have res: "create_client_data_files k main_data fs = Inr (True, ?fs)"
    using assms by (simp add: create_client_data_files_fold)
  have inner: "?fs (client_file i) = Some (df\<lparr>rows := []\<rparr>)" if "i \<in> {1..k - 1}" for i
  proof -
    from that have i: "1 \<le> i" "i < k" "i \<le> k" by auto
    have "?fs (client_file i) = Some (client_df df (?n div k) k i)"
      using i(1,3) by (rule fold_write_upto_at)
    moreover have "client_df df (?n div k) k i = df\<lparr>rows := []\<rparr>"
      using client_df_inner [OF i(1,2), of df] by (simp add: c)
    ultimately show ?thesis by simp
  qed
  have "?fs (client_file k) = Some (client_df df (?n div k) k k)"
    using assms(2) by (intro fold_write_upto_at) auto
  moreover have "client_df df (?n div k) k k = df"
    using client_df_last [OF assms(2), of df] by (simp add: c)
  ultimately have lst: "?fs (client_file k) = Some df" by simp
  from res c inner lst show ?thesis by blast
qed

theorem create_client_data_files_few_rows_witness:
  "[''data/pima_sample.csv'' \<mapsto> \<lparr>columns = [''Glucose''], rows = [[''120''], [''95'']]\<rparr>]
      ''data/pima_sample.csv'' = Some \<lparr>columns = [''Glucose''], rows = [[''120''], [''95'']]\<rparr>
   \<and> (1::int) \<le> 3
   \<and> int (length (rows \<lparr>columns = [''Glucose''], rows = [[''120''], [''95'']]\<rparr>)) < 3
   \<and> (\<exists>fs'. create_client_data_files 3 ''data/pima_sample.csv''
          [''data/pima_sample.csv'' \<mapsto> \<lparr>columns = [''Glucose''], rows = [[''120''], [''95'']]\<rparr>]
            = Inr (True, fs')
        \<and> fs' (client_file 1) = Some \<lparr>columns = [''Glucose''], rows = []\<rparr>
        \<and> fs' (client_file 2) = Some \<lparr>columns = [''Glucose''], rows = []\<rparr>
        \<and> fs' (client_file 3) = Some \<lparr>columns = [''Glucose''], rows = [[''120''], [''95'']]\<rparr>)"
proof -
  let ?df = "\<lparr>columns = [''Glucose''], rows = [[''120''], [''95'']]\<rparr>"
  let ?fs = "[''data/pima_sample.csv'' \<mapsto> ?df]"
  have h1: "?fs ''data/pima_sample.csv'' = Some ?df" by simp
  have h2: "(1::int) \<le> 3" by simp
  have h3: "int (length (rows ?df)) < 3" by simp
  from create_client_data_files_few_rows [where fs = "?fs" and main_data = "''data/pima_sample.csv''"
      and df = "?df" and k = 3, OF h1 h2 h3]
  obtain fs' where r: "create_client_data_files 3 ''data/pima_sample.csv'' ?fs = Inr (True, fs')"
    and sh: "\<forall>i\<in>{1..3 - 1}. fs' (client_file i) = Some (?df\<lparr>rows := []\<rparr>)"
    and l: "fs' (client_file 3) = Some ?df"
    by blast
  from sh have s1: "fs' (client_file 1) = Some \<lparr>columns = [''Glucose''], rows = []\<rparr>"
    by (auto dest!: bspec [where x = 1])
  from sh have s2: "fs' (client_file 2) = Some \<lparr>columns = [''Glucose''], rows = []\<rparr>"
    by (auto dest!: bspec [where x = 2])
  from h1 h2 h3 r s1 s2 l show ?thesis by blast
qed

section \<open>The forecast API: what a request stores\<close>

lemma readings_log_audit: "readings (log_audit e db uid act det ip) = readings db"
  by (simp add: log_audit_def)

lemma forecast_rows_source:
  "forecast_rows e uid pts = Some new \<Longrightarrow> \<forall>r\<in>set new. source r = ''forecast''"
  by (induction pts arbitrary: new) (auto split: option.splits)

lemma forecast_rows_Cons:
  assumes "forecast_rows e uid (pt # pts) = Some new"
  shows "\<exists>r rs. new = r # rs \<and> forecast_rows e uid pts = Some rs \<and> cached_point e uid pt r"
  using assms by (auto simp: cached_point_def split: option.splits)

lemma forecast_rows_points:
  "forecast_rows e uid pts = Some new \<Longrightarrow> list_all2 (cached_point e uid) pts new"
proof (induction pts arbitrary: new)
  case Nil
  then show ?case by simp
next
  case (Cons pt pts)
  from Cons.prems obtain r rs where n: "new = r # rs" "forecast_rows e uid pts = Some rs"
    "cached_point e uid pt r" using forecast_rows_Cons by blast
  from Cons.IH [OF n(2)] n(1,3) show ?case by simp
qed

lemma forecast_and_cache_cases:
  assumes "forecast_and_cache e db u rds flag = (db', resp)"
  shows "(db' = db \<and> resp = Server_error)
       \<or> (\<exists>pts new. forecast_rows e (u_id u) pts = Some new
              \<and> db' = db\<lparr>readings := readings db @ new\<rparr> \<and> resp = Forecast_json pts flag)"
  using assms by (auto simp: forecast_and_cache_def Let_def split: option.splits)

lemma set_export_readings:
  "set (export_readings db uid) = {r \<in> set (readings db). gr_user_id r = uid}"
  by (auto simp: export_readings_def)

lemma existing_cgm_None: "existing_cgm rs uid ts = None \<longleftrightarrow> cgm_count rs uid ts = 0"
  by (auto simp: existing_cgm_def cgm_count_def find_None_iff filter_empty_conv)

lemma cgm_count_append:
  "cgm_count (rs @ rs') uid t = cgm_count rs uid t + cgm_count rs' uid t"
  by (simp add: cgm_count_def)

lemma cgm_count_forecast:
  "\<forall>r\<in>set new. source r = ''forecast'' \<Longrightarrow> cgm_count new uid t = 0"
  by (auto simp: cgm_count_def filter_empty_conv)

lemma cgm_count_step:
  "cgm_count (store_cgm_reading e uid i rd rs) uid t =
     (if cgm_timestamp e i (r_timestamp rd) = Some t \<and> cgm_count rs uid t = 0 then 1
      else cgm_count rs uid t)"
proof (cases "cgm_timestamp e i (r_timestamp rd)")
  case None
  then show ?thesis by (simp add: store_cgm_reading_def)
next
  case (Some ts)
  show ?thesis
  proof (cases "existing_cgm rs uid ts")
    case None
    then have z: "cgm_count rs uid ts = 0" by (simp add: existing_cgm_None)
    have "store_cgm_reading e uid i rd rs =
        rs @ [\<lparr>gr_user_id = uid, timestamp = ts, glucose = r_glucose rd, source = ''cgm''\<rparr>]"
      using Some None by (simp add: store_cgm_reading_def)
    then have st: "cgm_count (store_cgm_reading e uid i rd rs) uid t =
        cgm_count rs uid t + (if ts = t then 1 else 0)"
      by (simp add: cgm_count_def)
    show ?thesis
    proof (cases "ts = t")
      case True
      with st z Some show ?thesis by simp
    next
      case False
      with st Some show ?thesis by simp
    qed
  next
    case (Some r)
    then have nz: "cgm_count rs uid ts \<noteq> 0" using existing_cgm_None [of rs uid ts] by simp
    have "store_cgm_reading e uid i rd rs = rs"
      using Some \<open>cgm_timestamp e i (r_timestamp rd) = Some ts\<close> by (simp add: store_cgm_reading_def)
    then show ?thesis using nz \<open>cgm_timestamp e i (r_timestamp rd) = Some ts\<close> by auto
  qed
qed

lemma cgm_count_loop:
  "cgm_count (store_cgm_readings e uid i rds rs) uid t =
     (if cgm_count rs uid t = 0 \<and>
         (\<exists>j<length rds. cgm_timestamp e (i + j) (r_timestamp (rds ! j)) = Some t) then 1
      else cgm_count rs uid t)"
proof (induction rds arbitrary: i rs)
  case Nil
  then show ?case by simp
next
  case (Cons rd rds)
  let ?rs = "store_cgm_reading e uid i rd rs"
  have ex: "(\<exists>j<length (rd # rds). cgm_timestamp e (i + j) (r_timestamp ((rd # rds) ! j)) = Some t)
      \<longleftrightarrow> cgm_timestamp e i (r_timestamp rd) = Some t
          \<or> (\<exists>j<length rds. cgm_timestamp e (Suc i + j) (r_timestamp (rds ! j)) = Some t)"
    (is "?L \<longleftrightarrow> ?A \<or> ?B")
  proof
    assume ?L
    then obtain j where j: "j < length (rd # rds)"
      "cgm_timestamp e (i + j) (r_timestamp ((rd # rds) ! j)) = Some t" by blast
    show "?A \<or> ?B"
    proof (cases j)
      case 0
      with j show ?thesis by simp
    next
      case (Suc j')
      with j have "j' < length rds" "cgm_timestamp e (Suc i + j') (r_timestamp (rds ! j')) = Some t"
        by simp_all
      then show ?thesis by blast
    qed
  next
    assume "?A \<or> ?B"
    then show ?L
    proof
      assume ?A
      then have "0 < length (rd # rds) \<and> cgm_timestamp e (i + 0) (r_timestamp ((rd # rds) ! 0)) = Some t"
        by simp
      then show ?L by blast
    next
      assume ?B
      then obtain j where "j < length rds" "cgm_timestamp e (Suc i + j) (r_timestamp (rds ! j)) = Some t"
        by blast
      then have "Suc j < length (rd # rds) \<and>
          cgm_timestamp e (i + Suc j) (r_timestamp ((rd # rds) ! Suc j)) = Some t" by simp
      then show ?L by blast
    qed
  qed
  have "cgm_count (store_cgm_readings e uid i (rd # rds) rs) uid t
      = cgm_count (store_cgm_readings e uid (Suc i) rds ?rs) uid t" by simp
  also have "\<dots> = (if cgm_count ?rs uid t = 0 \<and>
         (\<exists>j<length rds. cgm_timestamp e (Suc i + j) (r_timestamp (rds ! j)) = Some t) then 1
      else cgm_count ?rs uid t)" by (rule Cons.IH)
  also have "\<dots> = (if cgm_count rs uid t = 0 \<and>
         (cgm_timestamp e i (r_timestamp rd) = Some t
          \<or> (\<exists>j<length rds. cgm_timestamp e (Suc i + j) (r_timestamp (rds ! j)) = Some t)) then 1
      else cgm_count rs uid t)"
    by (simp add: cgm_count_step)
  finally show ?case by (simp only: ex)
qed

lemma store_cgm_readings_append:
  "store_cgm_readings e uid i (xs @ ys) rs =
     store_cgm_readings e uid (i + length xs) ys (store_cgm_readings e uid i xs rs)"
  by (induction xs arbitrary: i rs) simp_all

lemma store_cgm_readings_skip:
  assumes "j < length rds" and "cgm_timestamp e (i + j) (r_timestamp (rds ! j)) = None"
  shows "store_cgm_readings e uid i rds rs =
     store_cgm_readings e uid (Suc (i + j)) (drop (Suc j) rds)
       (store_cgm_readings e uid i (take j rds) rs)"
proof -
  have "rds = take j rds @ rds ! j # drop (Suc j) rds"
    using assms(1) by (simp add: id_take_nth_drop)
  then have "store_cgm_readings e uid i rds rs =
      store_cgm_readings e uid i (take j rds @ rds ! j # drop (Suc j) rds) rs" by simp
  also have "\<dots> = store_cgm_readings e uid (i + j) (rds ! j # drop (Suc j) rds)
      (store_cgm_readings e uid i (take j rds) rs)"
    using assms(1) by (simp add: store_cgm_readings_append)
  also have "\<dots> = store_cgm_readings e uid (Suc (i + j)) (drop (Suc j) rds)
      (store_cgm_readings e uid i (take j rds) rs)"
    using assms(2) by (simp add: store_cgm_reading_def)
  finally show ?thesis .
qed

lemma replace_Z_trailing: "replace_Z (s @ ''Z'') = replace_Z s @ ''+00:00''"
  by (simp add: replace_Z_def)

lemma replace_Z_no_Z: "CHR ''Z'' \<notin> set s \<Longrightarrow> replace_Z s = s"
  by (induction s) (auto simp: replace_Z_def)

lemma api_forecast_upload:
  assumes "\<not> is_json rq" and "files rq ''file'' = Some csv" and "read_rows e csv = Some rds"
    and "api_forecast e db (Some u) rq = (db', resp)"
  shows "\<exists>new. readings db' = store_cgm_readings e (u_id u) 0 rds (readings db) @ new
           \<and> (\<forall>r\<in>set new. source r = ''forecast'')"
proof -
  let ?db1 = "db\<lparr>readings := store_cgm_readings e (u_id u) 0 rds (readings db)\<rparr>"
  let ?db2 = "log_audit e ?db1 (Some (u_id u)) ''cgm_uploaded''
      (Some (''CGM data uploaded: '' @ str_nat (length rds) @ '' readings'')) (remote_addr e)"
  from assms have fc: "forecast_and_cache e ?db2 u rds True = (db', resp)"
    by (simp add: api_forecast_def login_required_def Let_def)
  have r2: "readings ?db2 = store_cgm_readings e (u_id u) 0 rds (readings db)"
    by (simp add: readings_log_audit)
  from forecast_and_cache_cases [OF fc] show ?thesis
  proof
    assume "db' = ?db2 \<and> resp = Server_error"
    then have "readings db' = store_cgm_readings e (u_id u) 0 rds (readings db) @ []"
      using r2 by simp
    then show ?thesis by fastforce
  next
    assume "\<exists>pts new. forecast_rows e (u_id u) pts = Some new
        \<and> db' = ?db2\<lparr>readings := readings ?db2 @ new\<rparr> \<and> resp = Forecast_json pts True"
    then obtain pts new where n: "forecast_rows e (u_id u) pts = Some new"
      "db' = ?db2\<lparr>readings := readings ?db2 @ new\<rparr>" by blast
    from n(2) have "readings db' = store_cgm_readings e (u_id u) 0 rds (readings db) @ new"
      using r2 by simp
    with forecast_rows_source [OF n(1)] show ?thesis by blast
  qed
qed

lemma api_forecast_upload_count:
  assumes "\<not> is_json rq" and "files rq ''file'' = Some csv" and "read_rows e csv = Some rds"
    and "api_forecast e db (Some u) rq = (db', resp)"
  shows "cgm_count (readings db') (u_id u) t =
     (if cgm_count (readings db) (u_id u) t = 0 \<and>
         (\<exists>j<length rds. cgm_timestamp e j (r_timestamp (rds ! j)) = Some t) then 1
      else cgm_count (readings db) (u_id u) t)"
proof -
  from api_forecast_upload [OF assms] obtain new where
    n: "readings db' = store_cgm_readings e (u_id u) 0 rds (readings db) @ new"
       "\<forall>r\<in>set new. source r = ''forecast''" by blast
  have "cgm_count (readings db') (u_id u) t
      = cgm_count (store_cgm_readings e (u_id u) 0 rds (readings db)) (u_id u) t"
    by (simp add: n(1) cgm_count_append cgm_count_forecast [OF n(2)])
  also have "\<dots> = (if cgm_count (readings db) (u_id u) t = 0 \<and>
         (\<exists>j<length rds. cgm_timestamp e (0 + j) (r_timestamp (rds ! j)) = Some t) then 1
      else cgm_count (readings db) (u_id u) t)"
    by (rule cgm_count_loop)
  finally show ?thesis by simp
qed

text \<open>
  A glucose cell that \<open>float\<close> rejects raises before the storing loop: nothing is stored.
\<close>

lemma api_forecast_bad_glucose:
  assumes "\<not> is_json rq" and "files rq ''file'' = Some csv" and "read_rows e csv = None"
  shows "api_forecast e db (Some u) rq = (db, Server_error)"
  using assms by (simp add: api_forecast_def login_required_def)

lemma example_read_rows:
  "read_rows example_env example_csv =
     Some [\<lparr>r_timestamp = Some ''2024-01-01T08:00:00Z'', r_glucose = 110\<rparr>,
           \<lparr>r_timestamp = Some ''2024-01-01T08:00:00Z'', r_glucose = 11 / 2\<rparr>,
           \<lparr>r_timestamp = Some ''not a date'', r_glucose = 197 / 2\<rparr>,
           \<lparr>r_timestamp = None, r_glucose = 0\<rparr>,
           \<lparr>r_timestamp = Some ''2024-1-1 8:10:00'', r_glucose = 110\<rparr>]"
  by (simp add: example_csv_def example_env_def row_glucose_def)

lemma example_upload_result:
  "api_forecast example_env example_db (Some example_user) example_upload =
     (example_db\<lparr>readings :=
        [\<lparr>gr_user_id = 3, timestamp = 1704096000, glucose = 110, source = ''cgm''\<rparr>,
         \<lparr>gr_user_id = 3, timestamp = 1704100003, glucose = 0, source = ''cgm''\<rparr>,
         \<lparr>gr_user_id = 3, timestamp = 1704096600, glucose = 110, source = ''cgm''\<rparr>,
         \<lparr>gr_user_id = 3, timestamp = 1704099600, glucose = 112, source = ''forecast''\<rparr>,
         \<lparr>gr_user_id = 3, timestamp = 1704100100, glucose = 115, source = ''forecast''\<rparr>],
        audit_logs := [\<lparr>au_user_id = Some 3, action = ''cgm_uploaded'',
           details = Some ''CGM data uploaded: 5 readings'', ip_address = Some ''127.0.0.1''\<rparr>]\<rparr>,
      Forecast_json
        [\<lparr>r_timestamp = Some ''2024-01-01T09:00:00'', r_glucose = 112\<rparr>,
         \<lparr>r_timestamp = None, r_glucose = 115\<rparr>] True)"
  by (simp add: api_forecast_def login_required_def example_upload_def example_read_rows)
     (simp add: forecast_and_cache_def example_env_def
      example_db_def example_user_def example_admin_def Let_def store_cgm_reading_def
      cgm_timestamp_def replace_Z_def existing_cgm_def log_audit_def str_nat.simps digit_char_def)

lemma example_json_result:
  "api_forecast example_env example_db (Some example_user) example_json_request =
     (example_db\<lparr>readings :=
        [\<lparr>gr_user_id = 3, timestamp = 1704099600, glucose = 112, source = ''forecast''\<rparr>,
         \<lparr>gr_user_id = 3, timestamp = 1704100100, glucose = 115, source = ''forecast''\<rparr>]\<rparr>,
      Forecast_json
        [\<lparr>r_timestamp = Some ''2024-01-01T09:00:00'', r_glucose = 112\<rparr>,
         \<lparr>r_timestamp = None, r_glucose = 115\<rparr>] False)"
  by (simp add: api_forecast_def login_required_def forecast_and_cache_def example_env_def
      example_db_def example_user_def example_admin_def example_json_request_def Let_def)

text \<open>
  C6. An authenticated request to the forecast API that is not JSON and has no file under
  the field \<open>file\<close> is answered with the error payload and status 400, and the database
  the handler returns is the one it received: no reading of any source is stored.
\<close>

theorem api_forecast_no_data:
  assumes "\<not> is_json rq" and "files rq ''file'' = None"
  shows "api_forecast e db (Some u) rq = (db, Error_json ''No data provided'' 400)
       \<and> status_code (snd (api_forecast e db (Some u) rq)) = 400"
  using assms by (simp add: api_forecast_def login_required_def)

theorem api_forecast_no_data_witness:
  "\<not> is_json example_empty_request \<and> files example_empty_request ''file'' = None
   \<and> api_forecast example_env example_db (Some example_user) example_empty_request
       = (example_db, Error_json ''No data provided'' 400)
   \<and> status_code (snd (api_forecast example_env example_db (Some example_user)
         example_empty_request)) = 400"
proof -
  have h1: "\<not> is_json example_empty_request" by (simp add: example_empty_request_def)
  have h2: "files example_empty_request ''file'' = None" by (simp add: example_empty_request_def)
  from api_forecast_no_data [OF h1 h2] h1 h2 show ?thesis by simp
qed

text \<open>
  C9. For an authenticated forecast request whose body is JSON the database changes by
  appended readings of source \<open>forecast\<close> only: the readings of source \<open>cgm\<close> are the
  same before and after, the audit log is unchanged (so no \<open>cgm_uploaded\<close> event), and
  a forecast answer carries the flag \<open>cgm_stored = False\<close>. The files of the request are
  not looked at: replacing them by any others gives the same database and answer.
\<close>

theorem api_forecast_json_only:
  assumes "is_json rq" and "api_forecast e db (Some u) rq = (db', resp)"
  shows "(\<exists>new. db' = db\<lparr>readings := readings db @ new\<rparr> \<and> (\<forall>r\<in>set new. source r = ''forecast''))
       \<and> filter (\<lambda>r. source r = ''cgm'') (readings db') = filter (\<lambda>r. source r = ''cgm'') (readings db)
       \<and> audit_logs db' = audit_logs db
       \<and> (\<forall>pts flag. resp = Forecast_json pts flag \<longrightarrow> \<not> flag)
       \<and> api_forecast e db (Some u) (rq\<lparr>files := fl\<rparr>) = (db', resp)"
proof -
  let ?rds = "case json_readings rq of None \<Rightarrow> [] | Some rds \<Rightarrow> rds"
  from assms have fc: "forecast_and_cache e db u ?rds False = (db', resp)"
    by (simp add: api_forecast_def login_required_def)
  from forecast_and_cache_cases [OF fc]
  have new: "\<exists>new. db' = db\<lparr>readings := readings db @ new\<rparr> \<and> (\<forall>r\<in>set new. source r = ''forecast'')"
  proof
    assume "db' = db \<and> resp = Server_error"
    then have "db' = db\<lparr>readings := readings db @ []\<rparr>" by simp
    then show ?thesis by fastforce
  next
    assume "\<exists>pts new. forecast_rows e (u_id u) pts = Some new
              \<and> db' = db\<lparr>readings := readings db @ new\<rparr> \<and> resp = Forecast_json pts False"
    then show ?thesis using forecast_rows_source by blast
  qed
  then obtain new where n: "db' = db\<lparr>readings := readings db @ new\<rparr>"
      "\<forall>r\<in>set new. source r = ''forecast''" by blast
  have "filter (\<lambda>r. source r = ''cgm'') new = []"
    using n(2) by (auto simp: filter_empty_conv)
  then have cgm: "filter (\<lambda>r. source r = ''cgm'') (readings db') = filter (\<lambda>r. source r = ''cgm'') (readings db)"
    by (simp add: n(1))
  have aud: "audit_logs db' = audit_logs db" by (simp add: n(1))
  have flag: "\<forall>pts flag. resp = Forecast_json pts flag \<longrightarrow> \<not> flag"
    using forecast_and_cache_cases [OF fc] by auto
  have same: "api_forecast e db (Some u) (rq\<lparr>files := fl\<rparr>) = (db', resp)"
    using assms by (simp add: api_forecast_def login_required_def)
  from new cgm aud flag same show ?thesis by blast
qed

theorem api_forecast_json_only_witness:
  "is_json example_json_request
   \<and> files example_json_request ''file'' = Some example_csv
   \<and> filter (\<lambda>r. source r = ''cgm'')
        (readings (fst (api_forecast example_env example_db (Some example_user) example_json_request)))
       = []
   \<and> audit_logs (fst (api_forecast example_env example_db (Some example_user) example_json_request))
       = []
   \<and> api_forecast example_env example_db (Some example_user)
        (example_json_request\<lparr>files := Map.empty\<rparr>)
       = api_forecast example_env example_db (Some example_user) example_json_request"
proof -
  let ?r = "api_forecast example_env example_db (Some example_user) example_json_request"
  have h1: "is_json example_json_request" by (simp add: example_json_request_def)
  have h2: "?r = (fst ?r, snd ?r)" by simp
  have f: "files example_json_request ''file'' = Some example_csv"
    by (simp add: example_json_request_def)
  from api_forecast_json_only [OF h1 h2, of Map.empty]
  have "filter (\<lambda>r. source r = ''cgm'') (readings (fst ?r))
          = filter (\<lambda>r. source r = ''cgm'') (readings example_db)"
    and "audit_logs (fst ?r) = audit_logs example_db"
    and "api_forecast example_env example_db (Some example_user)
           (example_json_request\<lparr>files := Map.empty\<rparr>) = ?r"
    by simp_all
  with h1 f show ?thesis by (simp add: example_db_def)
qed

text \<open>
  C7. When the forecast API answers with a forecast, the readings of the returned
  database end with one reading per returned point, in order, each caching its point
  (owner the requesting user, source \<open>forecast\<close>, the point's glucose, the point's own
  parsed timestamp when it is a string and the time of the request otherwise), and each of
  them is among the rows the export query reads for that user.
\<close>

theorem api_forecast_caches_points:
  assumes "api_forecast e db (Some u) rq = (db', Forecast_json pts flag)"
  shows "\<exists>old new. readings db' = old @ new
     \<and> list_all2 (cached_point e (u_id u)) pts new
     \<and> (\<forall>r\<in>set new. r \<in> set (export_readings db' (u_id u)))"
proof -
  from assms obtain dbm rds fl where fc: "forecast_and_cache e dbm u rds fl = (db', Forecast_json pts flag)"
    by (auto simp: api_forecast_def login_required_def Let_def split: if_splits option.splits)
  from forecast_and_cache_cases [OF fc] obtain new where
    fr: "forecast_rows e (u_id u) pts = Some new" and d: "db' = dbm\<lparr>readings := readings dbm @ new\<rparr>"
    by auto
  have a: "readings db' = readings dbm @ new" by (simp add: d)
  note b = forecast_rows_points [OF fr]
  then have "\<forall>r\<in>set new. gr_user_id r = u_id u"
    by (auto simp: list_all2_conv_all_nth in_set_conv_nth cached_point_def)
  then have c: "\<forall>r\<in>set new. r \<in> set (export_readings db' (u_id u))"
    by (simp add: set_export_readings a)
  from a b c show ?thesis by blast
qed

theorem api_forecast_caches_points_witness:
  "snd (api_forecast example_env example_db (Some example_user) example_json_request) =
     Forecast_json
        [\<lparr>r_timestamp = Some ''2024-01-01T09:00:00'', r_glucose = 112\<rparr>,
         \<lparr>r_timestamp = None, r_glucose = 115\<rparr>] False
   \<and> (\<exists>old new.
         readings (fst (api_forecast example_env example_db (Some example_user) example_json_request))
           = old @ new
       \<and> list_all2 (cached_point example_env (u_id example_user))
           [\<lparr>r_timestamp = Some ''2024-01-01T09:00:00'', r_glucose = 112\<rparr>,
            \<lparr>r_timestamp = None, r_glucose = 115\<rparr>] new
       \<and> (\<forall>r\<in>set new. r \<in> set (export_readings
             (fst (api_forecast example_env example_db (Some example_user) example_json_request))
             (u_id example_user))))"
proof -
  let ?r = "api_forecast example_env example_db (Some example_user) example_json_request"
  let ?pts = "[\<lparr>r_timestamp = Some ''2024-01-01T09:00:00'', r_glucose = 112\<rparr>,
         \<lparr>r_timestamp = None, r_glucose = 115\<rparr>]"
  have s: "snd ?r = Forecast_json ?pts False" by (simp add: example_json_result)
  then have h: "?r = (fst ?r, Forecast_json ?pts False)" by (metis prod.collapse)
  from api_forecast_caches_points [OF h] s show ?thesis by blast
qed

text \<open>
  C3. After an upload by user \<open>u\<close> whose rows were read as \<open>rds\<close>, the number of stored
  \<open>cgm\<close> readings of \<open>u\<close> at a timestamp \<open>t\<close> is 1 if there was none before and some row
  resolves to \<open>t\<close>, and is what it was before otherwise: a reading that already exists
  is not inserted again. Hence at most one reading per timestamp stays at most one,
  every timestamp some row resolves to then has exactly one reading (also when
  several rows carry it), and uploading the same file again changes no count.
\<close>

theorem cgm_upload_deduplicated:
  assumes "\<not> is_json rq" and "files rq ''file'' = Some csv" and "read_rows e csv = Some rds"
    and "api_forecast e db (Some u) rq = (db', resp)"
  shows "cgm_count (readings db') (u_id u) t =
           (if cgm_count (readings db) (u_id u) t = 0 \<and>
               (\<exists>j<length rds. cgm_timestamp e j (r_timestamp (rds ! j)) = Some t) then 1
            else cgm_count (readings db) (u_id u) t)
       \<and> (cgm_count (readings db) (u_id u) t \<le> 1 \<longrightarrow> cgm_count (readings db') (u_id u) t \<le> 1)
       \<and> (\<forall>j<length rds. cgm_count (readings db) (u_id u) t \<le> 1 \<and>
              cgm_timestamp e j (r_timestamp (rds ! j)) = Some t
              \<longrightarrow> cgm_count (readings db') (u_id u) t = 1)
       \<and> (\<forall>db'' resp'. api_forecast e db' (Some u) rq = (db'', resp')
              \<longrightarrow> cgm_count (readings db'') (u_id u) t = cgm_count (readings db') (u_id u) t)"
proof -
  note c = api_forecast_upload_count [OF assms, of t]
  have a: "cgm_count (readings db) (u_id u) t \<le> 1 \<longrightarrow> cgm_count (readings db') (u_id u) t \<le> 1"
    using c by (auto split: if_splits)
  have b: "\<forall>j<length rds. cgm_count (readings db) (u_id u) t \<le> 1 \<and>
              cgm_timestamp e j (r_timestamp (rds ! j)) = Some t
              \<longrightarrow> cgm_count (readings db') (u_id u) t = 1"
    using c by (auto split: if_splits)
  have d: "cgm_count (readings db'') (u_id u) t = cgm_count (readings db') (u_id u) t"
    if "api_forecast e db' (Some u) rq = (db'', resp')" for db'' resp'
  proof -
    note c2 = api_forecast_upload_count [OF assms(1,2,3) that, of t]
    show ?thesis using c c2 by (auto split: if_splits)
  qed
  from c a b d show ?thesis by blast
qed

theorem cgm_upload_deduplicated_witness:
  "\<not> is_json example_upload \<and> files example_upload ''file'' = Some example_csv
   \<and> cgm_count (readings example_db) (u_id example_user) 1704096000 = 0
   \<and> cgm_count (readings (fst (api_forecast example_env example_db (Some example_user)
        example_upload))) (u_id example_user) 1704096000 = 1
   \<and> cgm_count (readings (fst (api_forecast example_env
        (fst (api_forecast example_env example_db (Some example_user) example_upload))
        (Some example_user) example_upload))) (u_id example_user) 1704096000 = 1"
proof -
  let ?r = "api_forecast example_env example_db (Some example_user) example_upload"
  let ?r2 = "api_forecast example_env (fst ?r) (Some example_user) example_upload"
  have h1: "\<not> is_json example_upload" by (simp add: example_upload_def)
  have h2: "files example_upload ''file'' = Some example_csv" by (simp add: example_upload_def)
  note h3 = example_read_rows
  have h4: "?r = (fst ?r, snd ?r)" by simp
  have h5: "?r2 = (fst ?r2, snd ?r2)" by simp
  have c0: "cgm_count (readings example_db) (u_id example_user) 1704096000 = 0"
    by (simp add: example_db_def cgm_count_def)
  have ts: "cgm_timestamp example_env 1 (Some ''2024-01-01T08:00:00Z'') = Some 1704096000"
    by (simp add: cgm_timestamp_def replace_Z_def example_env_def)
  note t = cgm_upload_deduplicated [OF h1 h2 h3 h4, of 1704096000]
  from t have "\<forall>j<5. cgm_count (readings example_db) (u_id example_user) 1704096000 \<le> 1
      \<and> cgm_timestamp example_env j (r_timestamp
           ([\<lparr>r_timestamp = Some ''2024-01-01T08:00:00Z'', r_glucose = 110\<rparr>,
             \<lparr>r_timestamp = Some ''2024-01-01T08:00:00Z'', r_glucose = 11 / 2\<rparr>,
             \<lparr>r_timestamp = Some ''not a date'', r_glucose = 197 / 2\<rparr>,
             \<lparr>r_timestamp = None, r_glucose = 0\<rparr>,
             \<lparr>r_timestamp = Some ''2024-1-1 8:10:00'', r_glucose = 110\<rparr>] ! j)) = Some 1704096000
      \<longrightarrow> cgm_count (readings (fst ?r)) (u_id example_user) 1704096000 = 1"
    by simp
  then have "cgm_count (readings example_db) (u_id example_user) 1704096000 \<le> 1
      \<and> cgm_timestamp example_env 1 (Some ''2024-01-01T08:00:00Z'') = Some 1704096000
      \<longrightarrow> cgm_count (readings (fst ?r)) (u_id example_user) 1704096000 = 1"
    by (auto dest!: spec [where x = 1])
  with c0 ts have one: "cgm_count (readings (fst ?r)) (u_id example_user) 1704096000 = 1" by simp
  from t h5 have "cgm_count (readings (fst ?r2)) (u_id example_user) 1704096000
      = cgm_count (readings (fst ?r)) (u_id example_user) 1704096000" by blast
  with one h1 h2 c0 show ?thesis by simp
qed

text \<open>
  C2, as the code has it. For row \<open>j\<close> of an upload: a timestamp that is not a string
  resolves to the current time; a string is tried as ISO-8601 after every \<open>Z\<close>, in
  particular a trailing one, is rewritten to \<open>+00:00\<close>, then with the format
  \<open>%Y-%m-%d %H:%M:%S\<close>, then with \<open>%Y-%m-%dT%H:%M:%S\<close>. A row whose timestamp
  resolves to \<open>t\<close> leaves one stored \<open>cgm\<close> reading of the user at \<open>t\<close> if there was none
  (and the earlier ones otherwise). A row whose string fails all three formats is
  skipped: the loop stores what it stores without that row.
\<close>

theorem cgm_upload_timestamps:
  assumes "j < length rds"
  shows "(r_timestamp (rds ! j) = None \<longrightarrow>
            cgm_timestamp e j (r_timestamp (rds ! j)) = Some (now_row e j))
       \<and> (\<forall>s t. r_timestamp (rds ! j) = Some s \<and> fromisoformat e (replace_Z s) = Some t
            \<longrightarrow> cgm_timestamp e j (r_timestamp (rds ! j)) = Some t)
       \<and> (\<forall>s t. r_timestamp (rds ! j) = Some s \<and> fromisoformat e (replace_Z s) = None
              \<and> strptime e s ''%Y-%m-%d %H:%M:%S'' = Some t
            \<longrightarrow> cgm_timestamp e j (r_timestamp (rds ! j)) = Some t)
       \<and> (\<forall>s. r_timestamp (rds ! j) = Some s \<and> fromisoformat e (replace_Z s) = None
              \<and> strptime e s ''%Y-%m-%d %H:%M:%S'' = None
            \<longrightarrow> cgm_timestamp e j (r_timestamp (rds ! j)) = strptime e s ''%Y-%m-%dT%H:%M:%S'')
       \<and> (\<forall>s. replace_Z (s @ ''Z'') = replace_Z s @ ''+00:00'')
       \<and> (\<forall>t. cgm_timestamp e j (r_timestamp (rds ! j)) = Some t
            \<longrightarrow> cgm_count (store_cgm_readings e uid 0 rds rs) uid t = max 1 (cgm_count rs uid t))
       \<and> (cgm_timestamp e j (r_timestamp (rds ! j)) = None
            \<longrightarrow> store_cgm_readings e uid 0 rds rs =
                store_cgm_readings e uid (Suc j) (drop (Suc j) rds)
                  (store_cgm_readings e uid 0 (take j rds) rs))"
proof -
  have stored: "cgm_count (store_cgm_readings e uid 0 rds rs) uid t = max 1 (cgm_count rs uid t)"
    if "cgm_timestamp e j (r_timestamp (rds ! j)) = Some t" for t
  proof -
    from that assms have "\<exists>j<length rds. cgm_timestamp e (0 + j) (r_timestamp (rds ! j)) = Some t"
      by auto
    then show ?thesis by (simp add: cgm_count_loop [of e uid 0 rds rs t])
  qed
  have skipped: "store_cgm_readings e uid 0 rds rs =
                store_cgm_readings e uid (Suc j) (drop (Suc j) rds)
                  (store_cgm_readings e uid 0 (take j rds) rs)"
    if "cgm_timestamp e j (r_timestamp (rds ! j)) = None"
    using store_cgm_readings_skip [of j rds e 0 uid rs] assms that by simp
  show ?thesis
    using stored skipped by (auto simp: cgm_timestamp_def replace_Z_trailing)
qed

theorem cgm_upload_timestamps_witness:
  "cgm_timestamp example_env 3 None = Some 1704100003
   \<and> cgm_timestamp example_env 0 (Some ''2024-01-01T08:00:00Z'') = Some 1704096000
   \<and> cgm_timestamp example_env 4 (Some ''2024-1-1 8:10:00'') = Some 1704096600
   \<and> cgm_timestamp example_env 2 (Some ''not a date'') = None
   \<and> cgm_count (store_cgm_readings example_env 3 0
        [\<lparr>r_timestamp = Some ''2024-01-01T08:00:00Z'', r_glucose = 110\<rparr>,
         \<lparr>r_timestamp = Some ''2024-01-01T08:00:00Z'', r_glucose = 11 / 2\<rparr>,
         \<lparr>r_timestamp = Some ''not a date'', r_glucose = 197 / 2\<rparr>,
         \<lparr>r_timestamp = None, r_glucose = 0\<rparr>,
         \<lparr>r_timestamp = Some ''2024-1-1 8:10:00'', r_glucose = 110\<rparr>] []) 3 1704100003 = 1"
proof -
  let ?rds = "[\<lparr>r_timestamp = Some ''2024-01-01T08:00:00Z'', r_glucose = 110\<rparr>,
         \<lparr>r_timestamp = Some ''2024-01-01T08:00:00Z'', r_glucose = 11 / 2\<rparr>,
         \<lparr>r_timestamp = Some ''not a date'', r_glucose = 197 / 2\<rparr>,
         \<lparr>r_timestamp = None, r_glucose = 0\<rparr>,
         \<lparr>r_timestamp = Some ''2024-1-1 8:10:00'', r_glucose = 110\<rparr>]"
  have a: "cgm_timestamp example_env 0 (Some ''2024-01-01T08:00:00Z'') = Some 1704096000"
    by (simp add: cgm_timestamp_def replace_Z_def example_env_def)
  have b: "cgm_timestamp example_env 4 (Some ''2024-1-1 8:10:00'') = Some 1704096600"
    by (simp add: cgm_timestamp_def replace_Z_def example_env_def)
  have c: "cgm_timestamp example_env 2 (Some ''not a date'') = None"
    by (simp add: cgm_timestamp_def replace_Z_def example_env_def)
  have h: "(3::nat) < length ?rds" by simp
  note t = cgm_upload_timestamps [OF h, of example_env 3 "[]"]
  from t have n: "cgm_timestamp example_env 3 None = Some (now_row example_env 3)" by simp
  then have n': "cgm_timestamp example_env 3 None = Some 1704100003" by (simp add: example_env_def)
  from t have "\<forall>t. cgm_timestamp example_env 3 (r_timestamp (?rds ! 3)) = Some t
            \<longrightarrow> cgm_count (store_cgm_readings example_env 3 0 ?rds []) 3 t = max 1 (cgm_count [] 3 t)"
    by blast
  with n' have "cgm_count (store_cgm_readings example_env 3 0 ?rds []) 3 1704100003
      = max 1 (cgm_count [] 3 1704100003)" by simp
  then have d: "cgm_count (store_cgm_readings example_env 3 0 ?rds []) 3 1704100003 = 1"
    by (simp add: cgm_count_def)
  from n' a b c d show ?thesis by simp
qed

text \<open>
  The claim C2 as stated fails: in the example upload the timestamp \<open>not a date\<close> of the
  third row fails all three formats, and the row is not stored with the current time; it
  is not stored at all. The stored readings are those of the other rows.
\<close>

theorem cgm_unparsable_row_counterexample:
  "fromisoformat example_env (replace_Z ''not a date'') = None
   \<and> strptime example_env ''not a date'' ''%Y-%m-%d %H:%M:%S'' = None
   \<and> strptime example_env ''not a date'' ''%Y-%m-%dT%H:%M:%S'' = None
   \<and> store_cgm_reading example_env 3 2 \<lparr>r_timestamp = Some ''not a date'', r_glucose = 197 / 2\<rparr> [] = []
   \<and> readings (fst (api_forecast example_env example_db (Some example_user) example_upload)) =
        [\<lparr>gr_user_id = 3, timestamp = 1704096000, glucose = 110, source = ''cgm''\<rparr>,
         \<lparr>gr_user_id = 3, timestamp = 1704100003, glucose = 0, source = ''cgm''\<rparr>,
         \<lparr>gr_user_id = 3, timestamp = 1704096600, glucose = 110, source = ''cgm''\<rparr>,
         \<lparr>gr_user_id = 3, timestamp = 1704099600, glucose = 112, source = ''forecast''\<rparr>,
         \<lparr>gr_user_id = 3, timestamp = 1704100100, glucose = 115, source = ''forecast''\<rparr>]"
  by (simp add: example_upload_result)
     (simp add: example_env_def replace_Z_def store_cgm_reading_def cgm_timestamp_def example_db_def)

section \<open>The prediction API: rows persisted\<close>

lemma round_half_even_near: "\<bar>x - of_int (round_half_even x)\<bar> \<le> 1 / 2"
proof -
  define f where "f = \<lfloor>x\<rfloor>"
  define r where "r = x - of_int f"
  have r: "0 \<le> r" "r < 1" unfolding r_def f_def by linarith+
  have x: "x = of_int f + r" by (simp add: r_def)
  have eq: "round_half_even x =
      (if r < 1 / 2 then f else if 1 / 2 < r then f + 1 else if even f then f else f + 1)"
    by (simp add: round_half_even_def Let_def f_def r_def)
  consider "round_half_even x = f" "r \<le> 1 / 2" | "round_half_even x = f + 1" "1 / 2 \<le> r"
    unfolding eq by (cases "r < 1 / 2"; cases "1 / 2 < r"; cases "even f") auto
  then show ?thesis
  proof cases
    case 1
    then show ?thesis using r by (simp add: x)
  next
    case 2
    then show ?thesis using r by (simp add: x)
  qed
qed

lemma round_half_even_nonneg: "0 \<le> x \<Longrightarrow> 0 \<le> round_half_even x"
  by (auto simp: round_half_even_def Let_def)

lemma format_2f_nearest:
  assumes "0 \<le> x"
  shows "\<exists>n. format_2f x = str_nat (n div 100) @ ''.'' @
                 [digit_char (n mod 100 div 10), digit_char (n mod 10)]
           \<and> \<bar>x * 100 - of_nat n\<bar> \<le> 1 / 2"
proof -
  let ?n = "nat (round_half_even (\<bar>x\<bar> * 100))"
  have x: "\<bar>x\<bar> = x" using assms by simp
  have "0 \<le> round_half_even (x * 100)" using assms by (intro round_half_even_nonneg) simp
  then have "(of_nat ?n :: rat) = of_int (round_half_even (x * 100))" by (simp add: x)
  then have "\<bar>x * 100 - of_nat ?n\<bar> \<le> 1 / 2" using round_half_even_near [of "x * 100"] by simp
  moreover have "format_2f x = str_nat (?n div 100) @ ''.'' @
                 [digit_char (?n mod 100 div 10), digit_char (?n mod 10)]"
    using assms by (simp add: format_2f_def Let_def)
  ultimately show ?thesis by blast
qed

lemma format_2f_examples:
  "format_2f (3 / 4) = ''0.75''" "format_2f (1 / 4) = ''0.25''" "format_2f 1 = ''1.00''"
  "format_2f (1 / 8) = ''0.12''" "format_2f (3 / 8) = ''0.38''"
  "format_2f float_0_7 = ''0.70''" "format_2f (- 1 / 1024) = ''-0.00''"
  by code_simp+

text \<open>
  The float \<open>0.7\<close> is a double (an odd numerator below \<open>2^53\<close> over \<open>2^52\<close>), it lies
  below seven tenths, and no further from it than half a unit in the last place.
\<close>

lemma float_0_7_value:
  "float_0_7 = 3152519739159347 / 2 ^ 52" "float_0_7 < 7 / 10" "7 / 10 - float_0_7 \<le> 1 / 2 ^ 54"
  "0 < float_0_7"
  by (simp_all add: float_0_7_def)

lemma predictions_log_audit [simp]: "predictions (log_audit e db uid act det ip) = predictions db"
  by (simp add: log_audit_def)

lemma alerts_log_audit [simp]: "alerts (log_audit e db uid act det ip) = alerts db"
  by (simp add: log_audit_def)

lemma users_log_audit [simp]: "users (log_audit e db uid act det ip) = users db"
  by (simp add: log_audit_def)

lemma profiles_log_audit [simp]: "profiles (log_audit e db uid act det ip) = profiles db"
  by (simp add: log_audit_def)

lemma api_predict_success:
  assumes "(if federated_available e then federated_predict e pl else model_predict e pl)
             = Some (Some pred, Some prob, feats)"
  shows "\<exists>db'. api_predict e db (Some u) (Some pl) = (db', Predict_json pred prob feats)
     \<and> predictions db' = predictions db @
           [\<lparr>rp_user_id = u_id u, prediction = pred, probability = prob\<rparr>]
     \<and> (float_0_7 \<le> prob \<longrightarrow>
           alerts db' = alerts db @
             [\<lparr>al_user_id = u_id u, message = ''High diabetes risk: '' @ format_2f prob,
               level = ''high''\<rparr>]
         \<and> (\<exists>n. format_2f prob = str_nat (n div 100) @ ''.'' @
                     [digit_char (n mod 100 div 10), digit_char (n mod 10)]
                \<and> \<bar>prob * 100 - of_nat n\<bar> \<le> 1 / 2))
     \<and> (prob < float_0_7 \<longrightarrow> alerts db' = alerts db)"
proof -
  have fmt: "\<exists>n. format_2f prob = str_nat (n div 100) @ ''.'' @
                     [digit_char (n mod 100 div 10), digit_char (n mod 10)]
                \<and> \<bar>prob * 100 - of_nat n\<bar> \<le> 1 / 2" if "float_0_7 \<le> prob"
  proof -
    from that float_0_7_value(4) have "0 \<le> prob" by simp
    then show ?thesis by (rule format_2f_nearest)
  qed
  obtain db' where r: "api_predict e db (Some u) (Some pl) = (db', Predict_json pred prob feats)"
    using assms by (simp add: api_predict_def login_required_def Let_def)
  from r assms have "predictions db' = predictions db @
           [\<lparr>rp_user_id = u_id u, prediction = pred, probability = prob\<rparr>]"
    and "float_0_7 \<le> prob \<longrightarrow> alerts db' = alerts db @
             [\<lparr>al_user_id = u_id u, message = ''High diabetes risk: '' @ format_2f prob,
               level = ''high''\<rparr>]"
    and "prob < float_0_7 \<longrightarrow> alerts db' = alerts db"
    by (auto simp: api_predict_def login_required_def Let_def)
  with r fmt show ?thesis by blast
qed

lemma api_predict_failure:
  assumes "api_predict e db (Some u) body = (db', resp)"
    and "\<forall>p q f. resp \<noteq> Predict_json p q f"
  shows "db' = db"
  using assms
  by (auto simp: api_predict_def login_required_def Let_def split: option.splits)

lemma api_predict_answer:
  assumes "api_predict e db (Some u) body = (db', Predict_json p q f)"
  shows "\<exists>pl. body = Some pl \<and>
     (if federated_available e then federated_predict e pl else model_predict e pl)
       = Some (Some p, Some q, f)"
  using assms
  by (auto simp: api_predict_def login_required_def Let_def split: option.splits if_splits)

text \<open>
  C1, as the code has it. An authenticated call of the prediction API whose body decodes
  and whose model service returns a label and a probability that \<open>int()\<close> and \<open>float()\<close>
  accept appends exactly one RiskPrediction for the current user. If the probability is at
  least the float \<open>0.7\<close>, exactly one alert is appended as well, of level \<open>high\<close>, with the
  message \<open>High diabetes risk: \<close> followed by the probability with two decimals (the
  hundredth nearest to it); below the float \<open>0.7\<close> the alerts are unchanged. A call that
  is not answered with a prediction leaves the database as it was, and a prediction is
  answered on that path only.
\<close>

theorem api_predict_persists:
  "(\<forall>pl pred prob feats.
       body = Some pl \<and>
       (if federated_available e then federated_predict e pl else model_predict e pl)
         = Some (Some pred, Some prob, feats)
       \<longrightarrow> (\<exists>db'. api_predict e db (Some u) body = (db', Predict_json pred prob feats)
             \<and> predictions db' = predictions db @
                   [\<lparr>rp_user_id = u_id u, prediction = pred, probability = prob\<rparr>]
             \<and> (float_0_7 \<le> prob \<longrightarrow>
                   alerts db' = alerts db @
                     [\<lparr>al_user_id = u_id u,
                       message = ''High diabetes risk: '' @ format_2f prob, level = ''high''\<rparr>]
                 \<and> (\<exists>n. format_2f prob = str_nat (n div 100) @ ''.'' @
                             [digit_char (n mod 100 div 10), digit_char (n mod 10)]
                        \<and> \<bar>prob * 100 - of_nat n\<bar> \<le> 1 / 2))
             \<and> (prob < float_0_7 \<longrightarrow> alerts db' = alerts db)))
   \<and> (\<forall>db' resp. api_predict e db (Some u) body = (db', resp)
          \<and> (\<forall>p q f. resp \<noteq> Predict_json p q f)
        \<longrightarrow> db' = db)
   \<and> (\<forall>db' p q f. api_predict e db (Some u) body = (db', Predict_json p q f)
        \<longrightarrow> (\<exists>pl. body = Some pl \<and>
               (if federated_available e then federated_predict e pl else model_predict e pl)
                 = Some (Some p, Some q, f)))"
proof -
  have a: "\<exists>db'. api_predict e db (Some u) body = (db', Predict_json pred prob feats)
             \<and> predictions db' = predictions db @
                   [\<lparr>rp_user_id = u_id u, prediction = pred, probability = prob\<rparr>]
             \<and> (float_0_7 \<le> prob \<longrightarrow>
                   alerts db' = alerts db @
                     [\<lparr>al_user_id = u_id u,
                       message = ''High diabetes risk: '' @ format_2f prob, level = ''high''\<rparr>]
                 \<and> (\<exists>n. format_2f prob = str_nat (n div 100) @ ''.'' @
                             [digit_char (n mod 100 div 10), digit_char (n mod 10)]
                        \<and> \<bar>prob * 100 - of_nat n\<bar> \<le> 1 / 2))
             \<and> (prob < float_0_7 \<longrightarrow> alerts db' = alerts db)"
    if "body = Some pl"
      "(if federated_available e then federated_predict e pl else model_predict e pl)
         = Some (Some pred, Some prob, feats)"
    for pl pred prob feats
    using api_predict_success [OF that(2), of db u] that(1) by simp
  have b: "db' = db"
    if "api_predict e db (Some u) body = (db', resp)" "\<forall>p q f. resp \<noteq> Predict_json p q f"
    for db' resp
    using that by (rule api_predict_failure)
  have c: "\<exists>pl. body = Some pl \<and>
               (if federated_available e then federated_predict e pl else model_predict e pl)
                 = Some (Some p, Some q, f)"
    if "api_predict e db (Some u) body = (db', Predict_json p q f)" for db' p q f
    using that by (rule api_predict_answer)
  from a b c show ?thesis by blast
qed

theorem api_predict_persists_witness:
  "predictions (fst (api_predict example_env example_db (Some example_user)
        (Some [(''Glucose'', 148)])))
     = [\<lparr>rp_user_id = 3, prediction = 1, probability = 3 / 4\<rparr>]
   \<and> alerts (fst (api_predict example_env example_db (Some example_user)
        (Some [(''Glucose'', 148)])))
     = [\<lparr>al_user_id = 3, message = ''High diabetes risk: 0.75'', level = ''high''\<rparr>]
   \<and> predictions (fst (api_predict (example_env\<lparr>federated_available := True\<rparr>) example_db
        (Some example_user) (Some [(''Glucose'', 85)])))
     = [\<lparr>rp_user_id = 3, prediction = 0, probability = 1 / 4\<rparr>]
   \<and> alerts (fst (api_predict (example_env\<lparr>federated_available := True\<rparr>) example_db
        (Some example_user) (Some [(''Glucose'', 85)]))) = []
   \<and> fst (api_predict example_env example_db (Some example_user) None) = example_db"
proof -
  let ?b = "Some [(''Glucose'', 148 :: pyfloat)]"
  let ?b2 = "Some [(''Glucose'', 85 :: pyfloat)]"
  let ?e2 = "example_env\<lparr>federated_available := True\<rparr>"
  have p: "(if federated_available example_env then federated_predict example_env [(''Glucose'', 148)]
            else model_predict example_env [(''Glucose'', 148)])
         = Some (Some 1, Some (3 / 4), [''Glucose'', ''BMI''])"
    by (simp add: example_env_def)
  have p2: "(if federated_available ?e2 then federated_predict ?e2 [(''Glucose'', 85)]
            else model_predict ?e2 [(''Glucose'', 85)])
         = Some (Some 0, Some (1 / 4), [''Glucose'', ''BMI''])"
    by (simp add: example_env_def)
  have hi: "float_0_7 \<le> (3 / 4 :: rat)" by (simp add: float_0_7_def)
  have lo: "(1 / 4 :: rat) < float_0_7" by (simp add: float_0_7_def)
  from api_predict_persists [of ?b example_env example_db example_user] p
  obtain db' where
    t: "api_predict example_env example_db (Some example_user) ?b
          = (db', Predict_json 1 (3 / 4) [''Glucose'', ''BMI''])"
       "predictions db' = predictions example_db @
          [\<lparr>rp_user_id = u_id example_user, prediction = 1, probability = 3 / 4\<rparr>]"
       "float_0_7 \<le> (3 / 4 :: rat) \<longrightarrow> alerts db' = alerts example_db @
          [\<lparr>al_user_id = u_id example_user,
            message = ''High diabetes risk: '' @ format_2f (3 / 4), level = ''high''\<rparr>]"
    by blast
  from t(1) have f: "fst (api_predict example_env example_db (Some example_user) ?b) = db'"
    by simp
  from t(2) have a: "predictions db' = [\<lparr>rp_user_id = 3, prediction = 1, probability = 3 / 4\<rparr>]"
    by (simp add: example_db_def example_user_def)
  from t(3) hi have b: "alerts db' =
      [\<lparr>al_user_id = 3, message = ''High diabetes risk: 0.75'', level = ''high''\<rparr>]"
    by (simp add: example_db_def example_user_def format_2f_examples)
  from api_predict_persists [of ?b2 ?e2 example_db example_user] p2
  obtain db2 where
    t2: "api_predict ?e2 example_db (Some example_user) ?b2
          = (db2, Predict_json 0 (1 / 4) [''Glucose'', ''BMI''])"
       "predictions db2 = predictions example_db @
          [\<lparr>rp_user_id = u_id example_user, prediction = 0, probability = 1 / 4\<rparr>]"
       "(1 / 4 :: rat) < float_0_7 \<longrightarrow> alerts db2 = alerts example_db"
    by blast
  from t2(1) have f2: "fst (api_predict ?e2 example_db (Some example_user) ?b2) = db2" by simp
  from t2(2) have c: "predictions db2 = [\<lparr>rp_user_id = 3, prediction = 0, probability = 1 / 4\<rparr>]"
    by (simp add: example_db_def example_user_def)
  from t2(3) lo have d: "alerts db2 = []" by (simp add: example_db_def)
  have n: "api_predict example_env example_db (Some example_user) None
      = (fst (api_predict example_env example_db (Some example_user) None), Bad_request)"
    by (simp add: api_predict_def login_required_def)
  have "\<forall>p q f. Bad_request \<noteq> Predict_json p q f" by simp
  with api_predict_persists [of None example_env example_db example_user] n
  have g: "fst (api_predict example_env example_db (Some example_user) None) = example_db"
    by blast
  from a b c d g show ?thesis by (simp only: f f2)
qed

text \<open>
  The claim C1 as stated fails in two places. An authenticated call whose body is not
  JSON is answered with status 400 and persists no RiskPrediction. And a returned
  probability equal to the float \<open>0.7\<close>, which is below 0.70, creates an alert.
\<close>

theorem api_predict_counterexample:
  "api_predict example_env example_db (Some example_user) None = (example_db, Bad_request)
   \<and> predictions (fst (api_predict example_env example_db (Some example_user) None)) = []
   \<and> float_0_7 < 7 / 10
   \<and> alerts (fst (api_predict
        (example_env\<lparr>model_predict := (\<lambda>_. Some (Some 1, Some float_0_7, [''Glucose'', ''BMI'']))\<rparr>)
        example_db (Some example_user) (Some [(''Glucose'', 148)])))
     = [\<lparr>al_user_id = 3, message = ''High diabetes risk: 0.70'', level = ''high''\<rparr>]"
proof -
  have a: "api_predict example_env example_db (Some example_user) None = (example_db, Bad_request)"
    by (simp add: api_predict_def login_required_def)
  then have b: "predictions (fst (api_predict example_env example_db (Some example_user) None)) = []"
    by (simp add: example_db_def)
  note c = float_0_7_value(2)
  have "alerts (fst (api_predict
        (example_env\<lparr>model_predict := (\<lambda>_. Some (Some 1, Some float_0_7, [''Glucose'', ''BMI'']))\<rparr>)
        example_db (Some example_user) (Some [(''Glucose'', 148)])))
     = [\<lparr>al_user_id = 3, message = ''High diabetes risk: '' @ format_2f float_0_7,
          level = ''high''\<rparr>]"
    by (simp add: api_predict_def login_required_def example_env_def example_db_def
        example_user_def Let_def)
  then have d: "alerts (fst (api_predict
        (example_env\<lparr>model_predict := (\<lambda>_. Some (Some 1, Some float_0_7, [''Glucose'', ''BMI'']))\<rparr>)
        example_db (Some example_user) (Some [(''Glucose'', 148)])))
     = [\<lparr>al_user_id = 3, message = ''High diabetes risk: 0.70'', level = ''high''\<rparr>]"
    by (simp add: format_2f_examples)
  from a b c d show ?thesis by blast
qed

section \<open>Registration and the roles of created users\<close>

lemma register_invalid:
  assumes "req_method rq = ''POST''"
    and "\<not> truthy (form rq ''email'') \<or> \<not> truthy (form rq ''password'')
       \<or> form rq ''password'' \<noteq> form rq ''confirm_password''
       \<or> length (form_get rq ''password'') < 6
       \<or> strip (form_get rq ''first_name'') = [] \<or> strip (form_get rq ''last_name'') = []"
  shows "\<exists>msg. register e db rq = (db, Render ''register.html'' (Some (msg, ''error'')))"
  using assms
  by (auto simp: register_def register_error_def truthy_def form_get_def Let_def
      split: option.splits)

lemma register_success:
  assumes "register e db rq = (db', Redirect ''login'' (Some (fl, ''success'')))"
  shows "\<exists>u p. users db' = users db @ [u] \<and> role u = ''patient''
             \<and> form rq ''email'' = Some (email u)
             \<and> profiles db' = profiles db @ [p] \<and> pp_user_id p = u_id u
             \<and> first_name p = Some (strip (form_get rq ''first_name''))
             \<and> last_name p = Some (strip (form_get rq ''last_name''))
             \<and> name p = Some (strip (form_get rq ''first_name'') @ '' '' @
                               strip (form_get rq ''last_name''))"
  using assms
  by (auto simp: register_def register_error_def Let_def add_user_def add_profile_def
      split: option.splits if_splits)

lemma register_other:
  assumes "register e db rq = (db', resp)"
    and "\<forall>fl. resp \<noteq> Redirect ''login'' (Some (fl, ''success''))"
  shows "db' = db"
  using assms
  by (auto simp: register_def register_error_def Let_def add_user_def add_profile_def
      split: option.splits if_splits)

lemma register_valid:
  assumes "req_method rq = ''POST''"
    and "form rq ''email'' = Some em" and "em \<noteq> []"
    and "form rq ''password'' = Some pw" and "form rq ''confirm_password'' = Some pw"
    and "6 \<le> length pw"
    and "strip (form_get rq ''first_name'') \<noteq> []" and "strip (form_get rq ''last_name'') \<noteq> []"
    and "user_by_email db em = None"
  shows "\<exists>db'. register e db rq =
           (db', Redirect ''login'' (Some (''Registration successful! Please login.'', ''success'')))"
  using assms
  by (auto simp: register_def register_error_def Let_def add_user_def add_profile_def
      split: option.splits if_splits)

lemma strip_examples: "strip '' Ada '' = ''Ada''" "strip ''Lovelace'' = ''Lovelace''" "strip ''  '' = []"
  by (simp_all add: strip_def is_space_def)

text \<open>
  C4. A registration POST that fails validation (email or password missing or empty,
  password different from its confirmation, password shorter than 6 characters, first
  or last name absent or blank) re-renders the form with an error and returns the
  database unchanged. A registration that succeeds appends exactly one user, with role
  \<open>patient\<close>, and exactly one profile for that user whose name is the stripped first name,
  a space, and the stripped last name. Any other outcome leaves users and profiles as
  they were, and a valid form with a new email does succeed.
\<close>

theorem register_rows:
  "(req_method rq = ''POST'' \<and>
      (\<not> truthy (form rq ''email'') \<or> \<not> truthy (form rq ''password'')
       \<or> form rq ''password'' \<noteq> form rq ''confirm_password''
       \<or> length (form_get rq ''password'') < 6
       \<or> strip (form_get rq ''first_name'') = [] \<or> strip (form_get rq ''last_name'') = [])
     \<longrightarrow> (\<exists>msg. register e db rq = (db, Render ''register.html'' (Some (msg, ''error'')))))
   \<and> (\<forall>db' fl. register e db rq = (db', Redirect ''login'' (Some (fl, ''success'')))
        \<longrightarrow> (\<exists>u p. users db' = users db @ [u] \<and> role u = ''patient''
               \<and> form rq ''email'' = Some (email u)
               \<and> profiles db' = profiles db @ [p] \<and> pp_user_id p = u_id u
               \<and> first_name p = Some (strip (form_get rq ''first_name''))
               \<and> last_name p = Some (strip (form_get rq ''last_name''))
               \<and> name p = Some (strip (form_get rq ''first_name'') @ '' '' @
                                 strip (form_get rq ''last_name''))))
   \<and> (\<forall>db' resp. register e db rq = (db', resp)
          \<and> (\<forall>fl. resp \<noteq> Redirect ''login'' (Some (fl, ''success'')))
        \<longrightarrow> users db' = users db \<and> profiles db' = profiles db)
   \<and> (\<forall>em pw. req_method rq = ''POST'' \<and> form rq ''email'' = Some em \<and> em \<noteq> []
          \<and> form rq ''password'' = Some pw \<and> form rq ''confirm_password'' = Some pw
          \<and> 6 \<le> length pw
          \<and> strip (form_get rq ''first_name'') \<noteq> [] \<and> strip (form_get rq ''last_name'') \<noteq> []
          \<and> user_by_email db em = None
        \<longrightarrow> (\<exists>db'. register e db rq =
               (db', Redirect ''login''
                  (Some (''Registration successful! Please login.'', ''success'')))))"
proof -
  have a: "req_method rq = ''POST'' \<and>
      (\<not> truthy (form rq ''email'') \<or> \<not> truthy (form rq ''password'')
       \<or> form rq ''password'' \<noteq> form rq ''confirm_password''
       \<or> length (form_get rq ''password'') < 6
       \<or> strip (form_get rq ''first_name'') = [] \<or> strip (form_get rq ''last_name'') = [])
     \<longrightarrow> (\<exists>msg. register e db rq = (db, Render ''register.html'' (Some (msg, ''error''))))"
    using register_invalid [of rq e db] by blast
  have b: "\<forall>db' fl. register e db rq = (db', Redirect ''login'' (Some (fl, ''success'')))
        \<longrightarrow> (\<exists>u p. users db' = users db @ [u] \<and> role u = ''patient''
               \<and> form rq ''email'' = Some (email u)
               \<and> profiles db' = profiles db @ [p] \<and> pp_user_id p = u_id u
               \<and> first_name p = Some (strip (form_get rq ''first_name''))
               \<and> last_name p = Some (strip (form_get rq ''last_name''))
               \<and> name p = Some (strip (form_get rq ''first_name'') @ '' '' @
                                 strip (form_get rq ''last_name'')))"
    using register_success [of e db rq] by blast
  have c: "\<forall>db' resp. register e db rq = (db', resp)
          \<and> (\<forall>fl. resp \<noteq> Redirect ''login'' (Some (fl, ''success'')))
        \<longrightarrow> users db' = users db \<and> profiles db' = profiles db"
    using register_other [of e db rq] by blast
  have d: "\<forall>em pw. req_method rq = ''POST'' \<and> form rq ''email'' = Some em \<and> em \<noteq> []
          \<and> form rq ''password'' = Some pw \<and> form rq ''confirm_password'' = Some pw
          \<and> 6 \<le> length pw
          \<and> strip (form_get rq ''first_name'') \<noteq> [] \<and> strip (form_get rq ''last_name'') \<noteq> []
          \<and> user_by_email db em = None
        \<longrightarrow> (\<exists>db'. register e db rq =
               (db', Redirect ''login''
                  (Some (''Registration successful! Please login.'', ''success''))))"
    using register_valid [of rq _ _ db e] by blast
  from a b c d show ?thesis by blast
qed

theorem register_rows_witness:
  "(\<exists>db' u p. register example_env example_db example_form =
        (db', Redirect ''login'' (Some (''Registration successful! Please login.'', ''success'')))
      \<and> users db' = users example_db @ [u] \<and> role u = ''patient'' \<and> email u = ''ada@example.com''
      \<and> profiles db' = profiles example_db @ [p] \<and> pp_user_id p = u_id u
      \<and> name p = Some ''Ada Lovelace'')
   \<and> (\<exists>msg. register example_env example_db
          (example_form\<lparr>form := (form example_form)(''confirm_password'' \<mapsto> ''secret2'')\<rparr>)
        = (example_db, Render ''register.html'' (Some (msg, ''error''))))
   \<and> (\<exists>msg. register example_env example_db
          (example_form\<lparr>form := (form example_form)(''first_name'' \<mapsto> ''  '')\<rparr>)
        = (example_db, Render ''register.html'' (Some (msg, ''error''))))"
proof -
  note t = register_rows [of example_form example_env example_db]
  have v: "req_method example_form = ''POST'' \<and> form example_form ''email'' = Some ''ada@example.com''
      \<and> ''ada@example.com'' \<noteq> []
      \<and> form example_form ''password'' = Some ''secret1''
      \<and> form example_form ''confirm_password'' = Some ''secret1''
      \<and> 6 \<le> length ''secret1''
      \<and> strip (form_get example_form ''first_name'') \<noteq> []
      \<and> strip (form_get example_form ''last_name'') \<noteq> []
      \<and> user_by_email example_db ''ada@example.com'' = None"
    by (simp add: example_form_def form_get_def strip_examples user_by_email_def example_db_def
        example_admin_def example_user_def)
  with t obtain db' where r: "register example_env example_db example_form =
        (db', Redirect ''login'' (Some (''Registration successful! Please login.'', ''success'')))"
    by blast
  with t obtain u p where up: "users db' = users example_db @ [u]" "role u = ''patient''"
      "form example_form ''email'' = Some (email u)"
      "profiles db' = profiles example_db @ [p]" "pp_user_id p = u_id u"
      "name p = Some (strip (form_get example_form ''first_name'') @ '' '' @
                                 strip (form_get example_form ''last_name''))"
    by blast
  from up(3) have em: "email u = ''ada@example.com''" by (simp add: example_form_def)
  from up(6) have nm: "name p = Some ''Ada Lovelace''"
    by (simp add: example_form_def form_get_def strip_examples)
  let ?rq2 = "example_form\<lparr>form := (form example_form)(''confirm_password'' \<mapsto> ''secret2'')\<rparr>"
  have "req_method ?rq2 = ''POST'' \<and> form ?rq2 ''password'' \<noteq> form ?rq2 ''confirm_password''"
    by (simp add: example_form_def)
  with register_rows [of ?rq2 example_env example_db]
  have f1: "\<exists>msg. register example_env example_db ?rq2
        = (example_db, Render ''register.html'' (Some (msg, ''error'')))" by blast
  let ?rq3 = "example_form\<lparr>form := (form example_form)(''first_name'' \<mapsto> ''  '')\<rparr>"
  have "req_method ?rq3 = ''POST'' \<and> strip (form_get ?rq3 ''first_name'') = []"
    by (simp add: example_form_def form_get_def strip_examples)
  with register_rows [of ?rq3 example_env example_db]
  have f2: "\<exists>msg. register example_env example_db ?rq3
        = (example_db, Render ''register.html'' (Some (msg, ''error'')))" by blast
  from r up(1,2,4,5) em nm f1 f2 show ?thesis by blast
qed

lemma add_user_users:
  "add_user db em ph r = (db', u) \<Longrightarrow> users db' = users db @ [u] \<and> role u = r"
  by (auto simp: add_user_def Let_def)

lemma users_add_profile [simp]: "users (add_profile db uid f l n) = users db"
  by (simp add: add_profile_def)

lemma register_users:
  "\<exists>new. users (fst (register e db rq)) = users db @ new \<and> (\<forall>u\<in>set new. role u = ''patient'')"
proof (cases "\<exists>fl. snd (register e db rq) = Redirect ''login'' (Some (fl, ''success''))")
  case True
  then obtain fl where "register e db rq = (fst (register e db rq), Redirect ''login'' (Some (fl, ''success'')))"
    by (metis prod.collapse)
  from register_success [OF this] obtain u where
    "users (fst (register e db rq)) = users db @ [u]" "role u = ''patient''" by blast
  then have "users (fst (register e db rq)) = users db @ [u] \<and> (\<forall>v\<in>set [u]. role v = ''patient'')"
    by simp
  then show ?thesis by blast
next
  case False
  then have "fst (register e db rq) = db"
    using register_other [of e db rq "fst (register e db rq)" "snd (register e db rq)"] by simp
  then have "users (fst (register e db rq)) = users db @ [] \<and> (\<forall>v\<in>set []. role v = ''patient'')"
    by simp
  then show ?thesis by blast
qed

lemma create_clinician_users:
  "\<exists>new. users (fst (create_clinician e db cur rq)) = users db @ new
       \<and> (\<forall>u\<in>set new. role u = ''clinician'')"
proof -
  have "users (fst (create_clinician e db cur rq)) = users db
      \<or> (\<exists>u. users (fst (create_clinician e db cur rq)) = users db @ [u] \<and> role u = ''clinician'')"
    by (auto simp: create_clinician_def login_required_def role_required_def admin_redirect_def
        add_user_def Let_def split: option.splits)
  then show ?thesis
  proof
    assume "users (fst (create_clinician e db cur rq)) = users db"
    then have "users (fst (create_clinician e db cur rq)) = users db @ []
        \<and> (\<forall>u\<in>set []. role u = ''clinician'')" by simp
    then show ?thesis by blast
  next
    assume "\<exists>u. users (fst (create_clinician e db cur rq)) = users db @ [u] \<and> role u = ''clinician''"
    then obtain u where "users (fst (create_clinician e db cur rq)) = users db @ [u]
        \<and> (\<forall>v\<in>set [u]. role v = ''clinician'')" by auto
    then show ?thesis by blast
  qed
qed

lemma seed_defaults_users:
  "\<exists>new. users (seed_defaults e db) = users db @ new
       \<and> (\<forall>u\<in>set new. role u \<in> {''patient'', ''clinician'', ''admin''})
       \<and> map role new = filter (\<lambda>r. r \<in> set (map role new)) [''admin'', ''clinician'', ''patient'']"
proof -
  define s1 where "s1 = (if user_by_email db ''admin@example.com'' = None
      then [snd (add_user db ''admin@example.com'' (generate_password_hash e ''admin123'') ''admin'')]
      else [])"
  define db1 where "db1 = (if user_by_email db ''admin@example.com'' = None
                 then fst (add_user db ''admin@example.com''
                             (generate_password_hash e ''admin123'') ''admin'')
                 else db)"
  define s2 where "s2 = (if user_by_email db1 ''clinician@example.com'' = None
      then [snd (add_user db1 ''clinician@example.com'' (generate_password_hash e ''password123'') ''clinician'')]
      else [])"
  define db2 where "db2 = (if user_by_email db1 ''clinician@example.com'' = None
                 then fst (add_user db1 ''clinician@example.com''
                             (generate_password_hash e ''password123'') ''clinician'')
                 else db1)"
  define s3 where "s3 = (if user_by_email db2 ''patient@example.com'' = None
      then [snd (add_user db2 ''patient@example.com'' (generate_password_hash e ''password123'') ''patient'')]
      else [])"
  have u1: "users db1 = users db @ s1" "map role s1 = (if s1 = [] then [] else [''admin''])"
    by (simp_all add: db1_def s1_def add_user_def Let_def)
  have u2: "users db2 = users db1 @ s2" "map role s2 = (if s2 = [] then [] else [''clinician''])"
    by (simp_all add: db2_def s2_def add_user_def Let_def)
  have u3: "users (seed_defaults e db) = users db2 @ s3"
      "map role s3 = (if s3 = [] then [] else [''patient''])"
    by (simp_all add: seed_defaults_def Let_def db1_def [symmetric] db2_def [symmetric] s3_def
        add_user_def add_profile_def)
  have all: "users (seed_defaults e db) = users db @ (s1 @ s2 @ s3)"
    by (simp add: u1 u2 u3)
  have roles: "map role (s1 @ s2 @ s3) =
      (if s1 = [] then [] else [''admin'']) @ (if s2 = [] then [] else [''clinician''])
      @ (if s3 = [] then [] else [''patient''])"
    by (simp add: u1 u2 u3)
  have "\<forall>u\<in>set (s1 @ s2 @ s3). role u \<in> {''patient'', ''clinician'', ''admin''}"
  proof
    fix u assume "u \<in> set (s1 @ s2 @ s3)"
    then have "role u \<in> set (map role (s1 @ s2 @ s3))" by (simp only: set_map) blast
    then show "role u \<in> {''patient'', ''clinician'', ''admin''}"
      unfolding roles by (auto split: if_splits)
  qed
  moreover have "map role (s1 @ s2 @ s3) =
      filter (\<lambda>r. r \<in> set (map role (s1 @ s2 @ s3))) [''admin'', ''clinician'', ''patient'']"
    unfolding roles by simp
  ultimately show ?thesis using all by blast
qed

lemma seed_defaults_example:
  "seed_defaults example_env empty_db =
     \<lparr>users =
        [\<lparr>u_id = 1, email = ''admin@example.com'', password_hash = ''pbkdf2:admin123'',
          role = ''admin''\<rparr>,
         \<lparr>u_id = 2, email = ''clinician@example.com'', password_hash = ''pbkdf2:password123'',
          role = ''clinician''\<rparr>,
         \<lparr>u_id = 3, email = ''patient@example.com'', password_hash = ''pbkdf2:password123'',
          role = ''patient''\<rparr>],
      profiles =
        [\<lparr>pp_user_id = 3, first_name = Some ''John'', last_name = Some ''Doe'',
          name = Some ''John Doe'', age = None, sex = None, height_cm = None, weight_kg = None\<rparr>],
      readings = [], predictions = [], alerts = [], audit_logs = []\<rparr>"
  by (simp add: seed_defaults_def empty_db_def example_env_def user_by_email_def add_user_def
      add_profile_def next_id_def Let_def)

lemma create_clinician_example:
  "users (fst (create_clinician example_env example_db (Some example_admin) example_clinician_form))
     = [example_admin, example_user,
        \<lparr>u_id = 4, email = ''doc@example.com'', password_hash = ''pbkdf2:secret1'',
          role = ''clinician''\<rparr>]"
  by (simp add: create_clinician_def login_required_def role_required_def admin_redirect_def
      example_clinician_form_def example_admin_def example_user_def example_db_def example_env_def
      user_by_email_def add_user_def next_id_def Let_def log_audit_def)

text \<open>
  C8. Registration, clinician creation and seeding only ever append users, and every
  user they append has the role \<open>patient\<close>, \<open>clinician\<close> or \<open>admin\<close>: registration
  \<open>patient\<close>, clinician creation \<open>clinician\<close>, seeding one of the three. So if all
  stored users have one of the three roles, they all do afterwards.
\<close>

theorem created_users_roles:
  "(\<exists>new. users (fst (register e db rq)) = users db @ new
        \<and> (\<forall>u\<in>set new. role u = ''patient''))
   \<and> (\<exists>new. users (fst (create_clinician e db cur rq2)) = users db @ new
        \<and> (\<forall>u\<in>set new. role u = ''clinician''))
   \<and> (\<exists>new. users (seed_defaults e db) = users db @ new
        \<and> (\<forall>u\<in>set new. role u \<in> {''patient'', ''clinician'', ''admin''}))
   \<and> ((\<forall>u\<in>set (users db). role u \<in> {''patient'', ''clinician'', ''admin''}) \<longrightarrow>
        (\<forall>u\<in>set (users (fst (register e db rq))) \<union>
              set (users (fst (create_clinician e db cur rq2))) \<union>
              set (users (seed_defaults e db)).
           role u \<in> {''patient'', ''clinician'', ''admin''}))"
proof -
  from register_users [of e db rq] obtain n1 where
    a: "users (fst (register e db rq)) = users db @ n1" "\<forall>u\<in>set n1. role u = ''patient''"
    by blast
  from create_clinician_users [of e db cur rq2] obtain n2 where
    b: "users (fst (create_clinician e db cur rq2)) = users db @ n2"
       "\<forall>u\<in>set n2. role u = ''clinician''"
    by blast
  from seed_defaults_users [of e db] obtain n3 where
    c: "users (seed_defaults e db) = users db @ n3"
       "\<forall>u\<in>set n3. role u \<in> {''patient'', ''clinician'', ''admin''}"
    by blast
  have d: "(\<forall>u\<in>set (users db). role u \<in> {''patient'', ''clinician'', ''admin''}) \<longrightarrow>
        (\<forall>u\<in>set (users (fst (register e db rq))) \<union>
              set (users (fst (create_clinician e db cur rq2))) \<union>
              set (users (seed_defaults e db)).
           role u \<in> {''patient'', ''clinician'', ''admin''})"
    unfolding a(1) b(1) c(1) using a(2) b(2) c(2) by auto
  from a b c d show ?thesis by blast
qed

theorem created_users_roles_witness:
  "map role (users (seed_defaults example_env empty_db)) = [''admin'', ''clinician'', ''patient'']
   \<and> map role (users (fst (create_clinician example_env example_db (Some example_admin)
        example_clinician_form))) = [''admin'', ''patient'', ''clinician'']
   \<and> role ` (set (users (fst (register example_env empty_db example_form))) \<union>
          set (users (fst (create_clinician example_env empty_db (Some example_admin)
                 example_clinician_form))) \<union>
          set (users (seed_defaults example_env empty_db)))
        \<subseteq> {''patient'', ''clinician'', ''admin''}"
proof -
  have h: "\<forall>u\<in>set (users empty_db). role u \<in> {''patient'', ''clinician'', ''admin''}"
    by (simp add: empty_db_def)
  from created_users_roles [where e = example_env and db = empty_db and rq = example_form
      and cur = "Some example_admin" and ?rq2.0 = example_clinician_form] h
  have "\<forall>u\<in>set (users (fst (register example_env empty_db example_form))) \<union>
          set (users (fst (create_clinician example_env empty_db (Some example_admin)
                 example_clinician_form))) \<union>
          set (users (seed_defaults example_env empty_db)).
        role u \<in> {''patient'', ''clinician'', ''admin''}"
    by blast
  then have "role ` (set (users (fst (register example_env empty_db example_form))) \<union>
          set (users (fst (create_clinician example_env empty_db (Some example_admin)
                 example_clinician_form))) \<union>
          set (users (seed_defaults example_env empty_db)))
        \<subseteq> {''patient'', ''clinician'', ''admin''}"
    by blast
  moreover have "map role (users (seed_defaults example_env empty_db))
      = [''admin'', ''clinician'', ''patient'']"
    by (simp add: seed_defaults_example)
  moreover have "map role (users (fst (create_clinician example_env example_db (Some example_admin)
        example_clinician_form))) = [''admin'', ''patient'', ''clinician'']"
    by (simp only: create_clinician_example) (simp add: example_admin_def example_user_def)
  ultimately show ?thesis by blast
qed

end
